theory Spec2Isabelle
  imports Main "HOL-Library.Word"
begin

section \<open>The ledger: contracts/OAuthNFT.sol\<close>

text \<open>
  Solidity's \<open>uint256\<close> and \<open>address\<close> are words of 256 and 160 bits. A Solidity
  \<open>mapping\<close> is a total function whose unwritten slots hold the zero value of the
  value type. A call either reverts (and then leaves the storage as it was) or returns
  its value together with the new storage and the events it emitted.
\<close>

type_synonym uint256 = "256 word"
type_synonym address = "160 word"

record AuthToken =
  at_user :: address
  at_clientId :: string
  at_scope :: string
  at_expiresAt :: uint256
  at_revoked :: bool

definition zeroAuthToken :: AuthToken where
  "zeroAuthToken =
     \<lparr>at_user = 0, at_clientId = [], at_scope = [], at_expiresAt = 0, at_revoked = False\<rparr>"

text \<open>
  The storage of the contract. \<open>tokenIdCounter\<close>, \<open>authTokens\<close>, \<open>userTokens\<close> and
  \<open>clientRegistry\<close> are the four state variables of OAuthNFT.sol, lines 9 to 21.
  The contract inherits from OpenZeppelin's ERC721, ERC721URIStorage and Ownable
  (lines 4 to 8), which are a dependency and not part of the repository: of their storage
  the model keeps the owner of each token (\<open>erc_owners\<close>, read by \<open>_ownerOf\<close>), the
  token URIs and the contract owner (\<open>owner()\<close>).
\<close>

record OAuthNFT =
  tokenIdCounter :: uint256
  authTokens :: "uint256 \<Rightarrow> AuthToken"
  userTokens :: "address \<Rightarrow> uint256 list"
  clientRegistry :: "string \<Rightarrow> address"
  erc_owners :: "uint256 \<Rightarrow> address"
  erc_tokenURIs :: "uint256 \<Rightarrow> string"
  ownable_owner :: address

record msg =
  msg_sender :: address
  block_timestamp :: uint256

datatype revert =
    ClientAlreadyRegistered
  | ClientNotRegistered
  | InvalidExpirationTime
  | NotAuthorized
  | TokenDoesNotExist
  | OwnableUnauthorizedAccount
  | OwnableInvalidOwner
  | ERC721InvalidReceiver
  | ERC721InvalidSender
  | ERC721NonexistentToken
  | ArithmeticOverflow

datatype event =
    Transfer address address uint256
  | MetadataUpdate uint256
  | TokenMinted uint256 address string string
  | TokenRevoked uint256
  | ClientRegistered string address
  | OwnershipTransferred address address

text \<open>
  \<open>topics[1]\<close> of a log entry is its first indexed argument (\<open>topics[0]\<close> is the hash
  of the event's signature). \<open>Transfer\<close> indexes all three of its arguments, the first
  being \<open>from\<close>; \<open>TokenMinted\<close> and \<open>TokenRevoked\<close> index \<open>tokenId\<close> first (lines 23, 24);
  \<open>MetadataUpdate\<close> and \<open>ClientRegistered\<close> (line 25) index nothing;
  \<open>OwnershipTransferred\<close> indexes the previous owner first.
\<close>

fun topics1 :: "event \<Rightarrow> uint256 option" where
  "topics1 (Transfer from to tokenId) = Some (ucast from)"
| "topics1 (MetadataUpdate tokenId) = None"
| "topics1 (TokenMinted tokenId user clientId scope) = Some tokenId"
| "topics1 (TokenRevoked tokenId) = Some tokenId"
| "topics1 (ClientRegistered clientId clientAddress) = None"
| "topics1 (OwnershipTransferred previousOwner newOwner) = Some (ucast previousOwner)"

text \<open>line 27: the deployer becomes the owner; every other slot is zero.\<close>

definition constructor :: "address \<Rightarrow> OAuthNFT" where
  "constructor deployer =
     \<lparr>tokenIdCounter = 0,
      authTokens = (\<lambda>_. zeroAuthToken),
      userTokens = (\<lambda>_. []),
      clientRegistry = (\<lambda>_. 0),
      erc_owners = (\<lambda>_. 0),
      erc_tokenURIs = (\<lambda>_. []),
      ownable_owner = deployer\<rparr>"

definition ownerOf' :: "OAuthNFT \<Rightarrow> uint256 \<Rightarrow> address" where
  "ownerOf' s tokenId = erc_owners s tokenId"

text \<open>lines 86 to 88.\<close>

definition exists' :: "OAuthNFT \<Rightarrow> uint256 \<Rightarrow> bool" where
  "exists' s tokenId \<longleftrightarrow> ownerOf' s tokenId \<noteq> 0"


text \<open>
  The calls that write storage: the three of OAuthNFT.sol and the entry points it
  inherits. A mint hands the token to its receiver by the library's \<open>_safeMint\<close>
  (line 48), which, once the owner is written, calls \<open>onERC721Received\<close> of a receiver
  that is a contract and reverts unless the receiver accepts. That call runs the
  receiver's code in the middle of \<open>mintAuthToken\<close>, before lines 49 to 62, and the code
  may call back into this contract, which has no reentrancy guard. So a mint carries
  what its receiver does: \<open>None\<close> when the receiver does not accept (it refuses, or lets an
  error of its own pass), \<open>Some calls\<close> when it accepts after making the calls \<open>calls\<close>
  into this contract, each under the sender given with it (the receiver itself, or a
  contract it calls). An account without code makes no call: \<open>Some []\<close>.
\<close>

datatype call =
    RegisterClient string address
  | MintAuthToken address string string uint256 string "(address \<times> call) list option"
  | RevokeToken uint256
  | TransferFrom address uint256
  | TransferOwnership address
  | RenounceOwnership

type_synonym receiver = "(address \<times> call) list option"

text \<open>
  The library's \<open>_mint(to, tokenId)\<close>, the first half of \<open>_safeMint\<close>, by its documented
  requirements: it reverts for the zero address as receiver and for a token that already
  has an owner, writes the owner and emits \<open>Transfer(0, to, tokenId)\<close>.
\<close>

definition mint' :: "OAuthNFT \<Rightarrow> address \<Rightarrow> uint256 \<Rightarrow> revert + (event list \<times> OAuthNFT)" where
  "mint' s to tokenId =
     (if to = 0 then Inl ERC721InvalidReceiver
      else if erc_owners s tokenId \<noteq> 0 then Inl ERC721InvalidSender
      else Inr ([Transfer 0 to tokenId], s\<lparr>erc_owners := (erc_owners s)(tokenId := to)\<rparr>))"

text \<open>The library's \<open>_setTokenURI\<close>: stores the URI and emits \<open>MetadataUpdate\<close>.\<close>

definition setTokenURI' :: "OAuthNFT \<Rightarrow> uint256 \<Rightarrow> string \<Rightarrow> event list \<times> OAuthNFT" where
  "setTokenURI' s tokenId uri =
     ([MetadataUpdate tokenId], s\<lparr>erc_tokenURIs := (erc_tokenURIs s)(tokenId := uri)\<rparr>)"

text \<open>lines 29 to 33; \<open>onlyOwner\<close> is the library's modifier.\<close>

definition registerClient ::
  "msg \<Rightarrow> OAuthNFT \<Rightarrow> string \<Rightarrow> address \<Rightarrow> revert + (event list \<times> OAuthNFT)" where
  "registerClient m s clientId clientAddress =
     (if ownable_owner s \<noteq> msg_sender m then Inl OwnableUnauthorizedAccount
      else if clientRegistry s clientId \<noteq> 0 then Inl ClientAlreadyRegistered
      else Inr ([ClientRegistered clientId clientAddress],
                s\<lparr>clientRegistry := (clientRegistry s)(clientId := clientAddress)\<rparr>))"

text \<open>lines 65 to 69.\<close>

definition revokeToken :: "msg \<Rightarrow> OAuthNFT \<Rightarrow> uint256 \<Rightarrow> revert + (event list \<times> OAuthNFT)" where
  "revokeToken m s tokenId =
     (if \<not> (ownerOf' s tokenId = msg_sender m \<or> ownable_owner s = msg_sender m)
      then Inl NotAuthorized
      else Inr ([TokenRevoked tokenId],
                s\<lparr>authTokens := (authTokens s)(tokenId := (authTokens s tokenId)\<lparr>at_revoked := True\<rparr>)\<rparr>))"

text \<open>lines 71 to 75: a view function with no \<open>require\<close>.\<close>

definition isTokenValid :: "msg \<Rightarrow> OAuthNFT \<Rightarrow> uint256 \<Rightarrow> revert + bool" where
  "isTokenValid m s tokenId =
     (if \<not> exists' s tokenId then Inr False
      else
        let token = authTokens s tokenId in
        Inr (\<not> at_revoked token \<and> at_expiresAt token > block_timestamp m))"


text \<open>lines 82 to 84.\<close>

definition getUserTokens :: "OAuthNFT \<Rightarrow> address \<Rightarrow> uint256 list" where
  "getUserTokens s user = userTokens s user"

text \<open>
  The entry points the contract inherits and that write storage. A transfer (by
  \<open>transferFrom\<close> or \<open>safeTransferFrom\<close>) gives an existing token to a receiver that is
  not the zero address; who may do so depends on approvals, which the model leaves out:
  it lets every caller transfer, so that it has every state the contract can reach and
  more. The calls that the receiver of a transfer makes come after the transfer's only
  write, so they are calls of their own here. The library has no public entry point that
  burns a token.
\<close>

definition transferFrom :: "OAuthNFT \<Rightarrow> address \<Rightarrow> uint256 \<Rightarrow> revert + OAuthNFT" where
  "transferFrom s to tokenId =
     (if to = 0 then Inl ERC721InvalidReceiver
      else if erc_owners s tokenId = 0 then Inl ERC721NonexistentToken
      else Inr (s\<lparr>erc_owners := (erc_owners s)(tokenId := to)\<rparr>))"

definition transferOwnership :: "msg \<Rightarrow> OAuthNFT \<Rightarrow> address \<Rightarrow> revert + OAuthNFT" where
  "transferOwnership m s newOwner =
     (if ownable_owner s \<noteq> msg_sender m then Inl OwnableUnauthorizedAccount
      else if newOwner = 0 then Inl OwnableInvalidOwner
      else Inr (s\<lparr>ownable_owner := newOwner\<rparr>))"

definition renounceOwnership :: "msg \<Rightarrow> OAuthNFT \<Rightarrow> revert + OAuthNFT" where
  "renounceOwnership m s =
     (if ownable_owner s \<noteq> msg_sender m then Inl OwnableUnauthorizedAccount
      else Inr (s\<lparr>ownable_owner := 0\<rparr>))"

text \<open>
  \<open>mintAuthToken\<close> is lines 35 to 63; \<open>_tokenIdCounter++\<close> is checked arithmetic
  (Solidity 0.8) and reverts at \<open>2^256 - 1\<close> instead of wrapping. \<open>safeMint'\<close> is the
  library's \<open>_safeMint\<close>: \<open>_mint\<close>, then the call to the receiver. \<open>onERC721Received\<close>
  runs the calls of an accepting receiver in order, at the block time of the mint; a call
  of these that reverts is undone alone and the receiver goes on (a receiver that lets the
  error pass is the receiver \<open>None\<close>). \<open>transact\<close> is one call into the contract, from
  outside or from a receiver. The four are defined together, since a receiver may mint.
\<close>

function (sequential) mintAuthToken ::
  "msg \<Rightarrow> OAuthNFT \<Rightarrow> address \<Rightarrow> string \<Rightarrow> string \<Rightarrow> uint256 \<Rightarrow> string \<Rightarrow> receiver
     \<Rightarrow> revert + (uint256 \<times> event list \<times> OAuthNFT)"
and safeMint' ::
  "msg \<Rightarrow> OAuthNFT \<Rightarrow> address \<Rightarrow> uint256 \<Rightarrow> receiver \<Rightarrow> revert + (event list \<times> OAuthNFT)"
and onERC721Received ::
  "msg \<Rightarrow> (address \<times> call) list \<Rightarrow> OAuthNFT \<Rightarrow> event list \<times> OAuthNFT"
and transact :: "msg \<Rightarrow> call \<Rightarrow> OAuthNFT \<Rightarrow> revert + (event list \<times> OAuthNFT)"
where
  "mintAuthToken m s user clientId scope expiresAt tokenURI receiver =
     (if clientRegistry s clientId = 0 then Inl ClientNotRegistered
      else if \<not> (expiresAt > block_timestamp m) then Inl InvalidExpirationTime
      else
        let tokenId = tokenIdCounter s in
        if tokenIdCounter s = - 1 then Inl ArithmeticOverflow
        else
          let s1 = s\<lparr>tokenIdCounter := tokenIdCounter s + 1\<rparr> in
          (case safeMint' m s1 user tokenId receiver of
             Inl r \<Rightarrow> Inl r
           | Inr (ev1, s2) \<Rightarrow>
               (case setTokenURI' s2 tokenId tokenURI of
                  (ev2, s3) \<Rightarrow>
                    let s4 = s3\<lparr>authTokens := (authTokens s3)(tokenId :=
                                 \<lparr>at_user = user, at_clientId = clientId, at_scope = scope,
                                  at_expiresAt = expiresAt, at_revoked = False\<rparr>)\<rparr>;
                        s5 = s4\<lparr>userTokens := (userTokens s4)(user := userTokens s4 user @ [tokenId])\<rparr>
                    in Inr (tokenId, ev1 @ ev2 @ [TokenMinted tokenId user clientId scope], s5))))"
| "safeMint' m s to tokenId receiver =
     (case mint' s to tokenId of
        Inl r \<Rightarrow> Inl r
      | Inr (ev1, s1) \<Rightarrow>
          (case receiver of
             None \<Rightarrow> Inl ERC721InvalidReceiver
           | Some calls \<Rightarrow>
               (case onERC721Received m calls s1 of (ev2, s2) \<Rightarrow> Inr (ev1 @ ev2, s2))))"
| "onERC721Received m [] s = ([], s)"
| "onERC721Received m ((sender, c) # calls) s =
     (case transact (m\<lparr>msg_sender := sender\<rparr>) c s of
        Inl _ \<Rightarrow> onERC721Received m calls s
      | Inr (ev1, s1) \<Rightarrow>
          (case onERC721Received m calls s1 of (ev2, s2) \<Rightarrow> (ev1 @ ev2, s2)))"
| "transact m (RegisterClient clientId clientAddress) s = registerClient m s clientId clientAddress"
| "transact m (MintAuthToken user clientId scope expiresAt tokenURI receiver) s =
     (case mintAuthToken m s user clientId scope expiresAt tokenURI receiver of
        Inl r \<Rightarrow> Inl r
      | Inr (_, ev, s') \<Rightarrow> Inr (ev, s'))"
| "transact m (RevokeToken tokenId) s = revokeToken m s tokenId"
| "transact m (TransferFrom to tokenId) s =
     (case transferFrom s to tokenId of
        Inl r \<Rightarrow> Inl r
      | Inr s' \<Rightarrow> Inr ([Transfer (ownerOf' s tokenId) to tokenId], s'))"
| "transact m (TransferOwnership newOwner) s =
     (case transferOwnership m s newOwner of
        Inl r \<Rightarrow> Inl r
      | Inr s' \<Rightarrow> Inr ([OwnershipTransferred (ownable_owner s) newOwner], s'))"
| "transact m RenounceOwnership s =
     (case renounceOwnership m s of
        Inl r \<Rightarrow> Inl r
      | Inr s' \<Rightarrow> Inr ([OwnershipTransferred (ownable_owner s) 0], s'))"
  by pat_completeness auto

termination
  by (relation "measure (\<lambda>x. case x of
      Inl (Inl (m, s, user, clientId, scope, expiresAt, tokenURI, receiver)) \<Rightarrow>
        2 * size_option (size_list (size_prod (\<lambda>_. 0) size)) receiver + 2
    | Inl (Inr (m, s, to, tokenId, receiver)) \<Rightarrow>
        2 * size_option (size_list (size_prod (\<lambda>_. 0) size)) receiver + 1
    | Inr (Inl (m, calls, s)) \<Rightarrow> 2 * size_list (size_prod (\<lambda>_. 0) size) calls
    | Inr (Inr (m, c, s)) \<Rightarrow> 2 * size c + 1)") auto

declare mintAuthToken.simps [simp del] safeMint'.simps [simp del]

text \<open>
  A transaction is one call with its sender and block time; a reverted transaction
  leaves the storage unchanged. The states of the contract are those that transactions
  reach from the constructor.
\<close>

definition exec :: "msg \<times> call \<Rightarrow> OAuthNFT \<Rightarrow> OAuthNFT" where
  "exec tx s = (case transact (fst tx) (snd tx) s of Inl _ \<Rightarrow> s | Inr (_, s') \<Rightarrow> s')"

definition run :: "(msg \<times> call) list \<Rightarrow> OAuthNFT \<Rightarrow> OAuthNFT" where
  "run txs s = fold exec txs s"

inductive reachable :: "OAuthNFT \<Rightarrow> bool" where
  deployed: "reachable (constructor deployer)"
| mined: "reachable s \<Longrightarrow> reachable (exec tx s)"

section \<open>The bearer token codec\<close>

text \<open>
  The bearer token is made and checked by the \<open>jsonwebtoken\<close> package
  (\<open>jwt.sign\<close> at server.ts line 112, \<open>jwt.verify\<close> at lines 144 and 182), which is
  not in the repository. The claims are the four fields the server signs (lines 113 to
  118); the payload adds the two times. A token on the wire is either a string that does
  not parse or a payload with a signature. The keyed hash is a parameter.
\<close>

record claims =
  c_tokenId :: string
  c_userAddress :: string
  c_clientId :: string
  c_scope :: string

record jwt_payload = claims +
  iat :: nat
  exp :: nat

datatype bearer = Unparseable string | Compact jwt_payload string

datatype codec_error = MalformedToken | BadSignature | Expired

text \<open>
  Modelled from the spec: \<open>jwt.sign\<close> of the package jsonwebtoken, as section 4.4
  describes \<open>issue(claims, ttl)\<close>: a signed credential whose signature covers all claim
  fields, the time of issue and the expiry, under a symmetric secret.
\<close>

definition jwt_sign ::
  "(string \<Rightarrow> jwt_payload \<Rightarrow> string) \<Rightarrow> claims \<Rightarrow> string \<Rightarrow> nat \<Rightarrow> nat \<Rightarrow> bearer" where
  "jwt_sign mac c secret expiresIn now =
     (let p = claims.extend c \<lparr>iat = now, exp = now + expiresIn\<rparr>
      in Compact p (mac secret p))"

text \<open>
  Modelled from the spec: \<open>jwt.verify\<close> of the package jsonwebtoken, as section 4.4
  describes \<open>decode(token)\<close>: it fails with \<open>MalformedToken\<close> if the token is
  unparseable, with \<open>BadSignature\<close> if the signature does not verify, with \<open>Expired\<close> if
  \<open>now > expiresAt\<close>, and returns the payload otherwise.
\<close>

definition jwt_verify ::
  "(string \<Rightarrow> jwt_payload \<Rightarrow> string) \<Rightarrow> bearer \<Rightarrow> string \<Rightarrow> nat \<Rightarrow> codec_error + jwt_payload" where
  "jwt_verify mac token secret now =
     (case token of
        Unparseable _ \<Rightarrow> Inl MalformedToken
      | Compact p sig \<Rightarrow>
          if sig \<noteq> mac secret p then Inl BadSignature
          else if now > exp p then Inl Expired
          else Inr p)"

section \<open>The server: backend/server.ts\<close>

text \<open>
  What the server takes from its surroundings: the signing secret (line 11), the account
  of \<open>provider.getSigner(0)\<close>, the keyed hash of the codec, and the conversions of the
  ethers package between strings and the contract's argument types (\<open>None\<close> when ethers
  throws).
\<close>

record env =
  JWT_SECRET :: string
  signer0 :: address
  hmac :: "string \<Rightarrow> jwt_payload \<Rightarrow> string"
  getAddress :: "string \<Rightarrow> address option"
  getUint :: "string \<Rightarrow> uint256 option"
  toString :: "uint256 \<Rightarrow> string"

text \<open>
  What one request sees of the outside: \<open>Date.now()\<close> in milliseconds, the time of the
  block its contract calls run in, whether the node answers, and what the code at an
  address does when a mint of this request hands it a token.
\<close>

record clock =
  date_now :: nat
  block_time :: uint256
  rpc_up :: bool
  code_at :: "address \<Rightarrow> receiver"

text \<open>lines 27 to 33; \<open>state\<close> is stored as received and may be absent.\<close>

record AuthorizationRequest =
  ar_clientId :: string
  ar_redirectUri :: string
  ar_scope :: string
  ar_state :: "string option"
  ar_userAddress :: string

text \<open>lines 35 to 40; a field of a request body may be absent.\<close>

record TokenRequest =
  tr_code :: "string option"
  tr_clientId :: "string option"
  tr_clientSecret :: "string option"
  tr_redirectUri :: "string option"

record AuthorizeBody =
  ab_clientId :: "string option"
  ab_redirectUri :: "string option"
  ab_scope :: "string option"
  ab_state :: "string option"
  ab_userAddress :: "string option"

text \<open>line 42, and the contract the server talks to.\<close>

record server =
  authorizationCodes :: "string \<rightharpoonup> AuthorizationRequest"
  ledger :: OAuthNFT

record tokenInfo =
  ti_user :: address
  ti_clientId :: string
  ti_scope :: string
  ti_expiresAt :: string
  ti_revoked :: bool

datatype response =
    Error nat string
  | AuthorizeResponse string "string option" string
  | TokenResponse bearer string nat string string
  | VerifyResponse bool string string string tokenInfo
  | RevokeResponse bool string

text \<open>
  JavaScript's \<open>!x\<close> on a string field: true when the field is absent or the empty
  string. \<open>truthy\<close> gives the string when \<open>!x\<close> is false.
\<close>

fun truthy :: "string option \<Rightarrow> string option" where
  "truthy None = None"
| "truthy (Some x) = (if x = [] then None else Some x)"

text \<open>lines 44 to 73. The code is drawn at random (line 52) and is an argument here.\<close>

definition authorize_handler :: "string \<Rightarrow> server \<Rightarrow> AuthorizeBody \<Rightarrow> response \<times> server" where
  "authorize_handler code s body =
     (case (truthy (ab_clientId body), truthy (ab_redirectUri body), truthy (ab_userAddress body)) of
        (Some clientId, Some redirectUri, Some userAddress) \<Rightarrow>
          (AuthorizeResponse code (ab_state body)
             (redirectUri @ ''?code='' @ code @ ''&state='' @
                (case ab_state body of None \<Rightarrow> ''undefined'' | Some st \<Rightarrow> st)),
           s\<lparr>authorizationCodes := (authorizationCodes s)(code \<mapsto>
               \<lparr>ar_clientId = clientId, ar_redirectUri = redirectUri,
                ar_scope = (case truthy (ab_scope body) of None \<Rightarrow> ''read'' | Some sc \<Rightarrow> sc),
                ar_state = ab_state body, ar_userAddress = userAddress\<rparr>)\<rparr>)
      | _ \<Rightarrow> (Error 400 ''Missing required parameters'', s))"

text \<open>line 62: the timer deletes the code.\<close>

definition timeout_code :: "string \<Rightarrow> server \<Rightarrow> server" where
  "timeout_code code s = s\<lparr>authorizationCodes := (authorizationCodes s)(code := None)\<rparr>"

text \<open>line 99.\<close>

definition tokenURI_of :: "string \<Rightarrow> string \<Rightarrow> string" where
  "tokenURI_of clientId scope =
     ''data:application/json,{'' @ [CHR 0x22] @ ''client'' @ [CHR 0x22] @ '':'' @ [CHR 0x22]
       @ clientId @ [CHR 0x22] @ '','' @ [CHR 0x22] @ ''scope'' @ [CHR 0x22] @ '':'' @ [CHR 0x22]
       @ scope @ [CHR 0x22] @ ''}''"

text \<open>
  lines 95 to 110: the transaction that mints, and the first topic after the signature
  of the first log of its receipt. \<open>None\<close> when anything throws: the node does not answer,
  ethers rejects the address, the call reverts, or the receipt has no such topic. The
  second component is the ledger after the call.
\<close>

definition mint_call ::
  "env \<Rightarrow> clock \<Rightarrow> OAuthNFT \<Rightarrow> AuthorizationRequest \<Rightarrow> string \<Rightarrow> uint256 option \<times> OAuthNFT" where
  "mint_call e k l authRequest clientId =
     (if \<not> rpc_up k then (None, l)
      else
        let expiresAt = date_now k div 1000 + 3600;
            tokenURI = tokenURI_of clientId (ar_scope authRequest)
        in case getAddress e (ar_userAddress authRequest) of
             None \<Rightarrow> (None, l)
           | Some user \<Rightarrow>
               (case mintAuthToken \<lparr>msg_sender = signer0 e, block_timestamp = block_time k\<rparr>
                       l user clientId (ar_scope authRequest) (of_nat expiresAt) tokenURI
                       (code_at k user) of
                  Inl _ \<Rightarrow> (None, l)
                | Inr (_, logs, l') \<Rightarrow>
                    (case logs of
                       [] \<Rightarrow> (None, l')
                     | log0 # _ \<Rightarrow> (topics1 log0, l'))))"

text \<open>lines 75 to 134.\<close>

definition token_handler :: "env \<Rightarrow> clock \<Rightarrow> server \<Rightarrow> TokenRequest \<Rightarrow> response \<times> server" where
  "token_handler e k s req =
     (case (truthy (tr_code req), truthy (tr_clientId req), truthy (tr_redirectUri req)) of
        (Some code, Some clientId, Some redirectUri) \<Rightarrow>
          (case authorizationCodes s code of
             None \<Rightarrow> (Error 400 ''Invalid authorization code'', s)
           | Some authRequest \<Rightarrow>
               if ar_clientId authRequest \<noteq> clientId \<or> ar_redirectUri authRequest \<noteq> redirectUri
               then (Error 400 ''Client mismatch'', s)
               else
                 let s1 = s\<lparr>authorizationCodes := (authorizationCodes s)(code := None)\<rparr> in
                 (case mint_call e k (ledger s1) authRequest clientId of
                    (None, l') \<Rightarrow> (Error 500 ''Token generation failed'', s1\<lparr>ledger := l'\<rparr>)
                  | (Some tokenId, l') \<Rightarrow>
                      let accessToken =
                            jwt_sign (hmac e)
                              \<lparr>c_tokenId = toString e tokenId,
                               c_userAddress = ar_userAddress authRequest,
                               c_clientId = clientId,
                               c_scope = ar_scope authRequest\<rparr>
                              (JWT_SECRET e) 3600 (date_now k div 1000)
                      in (TokenResponse accessToken ''Bearer'' 3600 (toString e tokenId)
                            (ar_scope authRequest),
                          s1\<lparr>ledger := l'\<rparr>)))
      | _ \<Rightarrow> (Error 400 ''Missing required parameters'', s))"

text \<open>\<open>!token\<close> (lines 140 and 178): the token is absent or the empty string.\<close>

fun given :: "bearer option \<Rightarrow> bearer option" where
  "given None = None"
| "given (Some (Unparseable x)) = (if x = [] then None else Some (Unparseable x))"
| "given (Some (Compact p sig)) = Some (Compact p sig)"




text \<open>lines 174 to 195.\<close>

definition revoke_handler :: "env \<Rightarrow> clock \<Rightarrow> server \<Rightarrow> bearer option \<Rightarrow> response \<times> server" where
  "revoke_handler e k s token =
     (case given token of
        None \<Rightarrow> (Error 400 ''Token required'', s)
      | Some t \<Rightarrow>
          (case jwt_verify (hmac e) t (JWT_SECRET e) (date_now k div 1000) of
             Inl _ \<Rightarrow> (Error 500 ''Revocation failed'', s)
           | Inr decoded \<Rightarrow>
               if \<not> rpc_up k then (Error 500 ''Revocation failed'', s)
               else
                 (case getUint e (c_tokenId decoded) of
                    None \<Rightarrow> (Error 500 ''Revocation failed'', s)
                  | Some n \<Rightarrow>
                      (case revokeToken \<lparr>msg_sender = signer0 e, block_timestamp = block_time k\<rparr>
                              (ledger s) n of
                         Inl _ \<Rightarrow> (Error 500 ''Revocation failed'', s)
                       | Inr (_, l') \<Rightarrow>
                           (RevokeResponse True ''Token revoked'', s\<lparr>ledger := l'\<rparr>)))))"

text \<open>
  Everything that can happen to the server's state: its four writing or reading
  handlers, the timer of a code, and a transaction that someone else sends to the
  contract.
\<close>

datatype request =
    Authorize string AuthorizeBody
  | Token clock TokenRequest
  | Verify clock "bearer option"
  | Revoke clock "bearer option"
  | Timeout string
  | Chain msg call

fun step :: "env \<Rightarrow> request \<Rightarrow> server \<Rightarrow> server" where
  "step e (Authorize code body) s = snd (authorize_handler code s body)"
| "step e (Token k req) s = snd (token_handler e k s req)"
| "step e (Verify k token) s = s"
| "step e (Revoke k token) s = snd (revoke_handler e k s token)"
| "step e (Timeout code) s = timeout_code code s"
| "step e (Chain m c) s = s\<lparr>ledger := exec (m, c) (ledger s)\<rparr>"

text \<open>The request issues the code \<open>code\<close>: it is an authorize request that draws it.\<close>

fun issues :: "string \<Rightarrow> request \<Rightarrow> bool" where
  "issues code (Authorize code' body) \<longleftrightarrow> code' = code"
| "issues code _ \<longleftrightarrow> False"

fun is_TokenResponse :: "response \<Rightarrow> bool" where
  "is_TokenResponse (TokenResponse _ _ _ _ _) \<longleftrightarrow> True"
| "is_TokenResponse _ \<longleftrightarrow> False"

text \<open>The request is an exchange of the code \<open>code\<close> that succeeds in state \<open>s\<close>.\<close>

fun exchanges :: "env \<Rightarrow> string \<Rightarrow> request \<Rightarrow> server \<Rightarrow> bool" where
  "exchanges e code (Token k req) s \<longleftrightarrow>
     tr_code req = Some code \<and> is_TokenResponse (fst (token_handler e k s req))"
| "exchanges e code _ s \<longleftrightarrow> False"

text \<open>The number of successful exchanges of \<open>code\<close> while the requests run from \<open>s\<close>.\<close>

fun exchanged :: "env \<Rightarrow> string \<Rightarrow> request list \<Rightarrow> server \<Rightarrow> nat" where
  "exchanged e code [] s = 0"
| "exchanged e code (r # rs) s =
     (if exchanges e code r s then 1 else 0) + exchanged e code rs (step e r s)"

text \<open>
  The error classes of the server's replies: a grant error is one of the two 400 replies
  about the code (lines 86 and 90).
\<close>

definition GrantError :: "response \<Rightarrow> bool" where
  "GrantError r \<longleftrightarrow>
     r = Error 400 ''Invalid authorization code'' \<or> r = Error 400 ''Client mismatch''"

section \<open>Histories of the ledger\<close>

text \<open>
  A mint that is committed emits \<open>TokenMinted\<close> with the id it returns (lines 61 and
  62), whether a transaction called it or a receiver did from its callback; the events of
  a call that reverts are dropped with it. \<open>minted\<close> lists the ids that the committed
  mints of a list of transactions returned, when the transactions run from \<open>s\<close>.
\<close>

fun mints_of :: "event list \<Rightarrow> uint256 list" where
  "mints_of [] = []"
| "mints_of (TokenMinted tokenId user clientId scope # evs) = tokenId # mints_of evs"
| "mints_of (_ # evs) = mints_of evs"

fun minted :: "(msg \<times> call) list \<Rightarrow> OAuthNFT \<Rightarrow> uint256 list" where
  "minted [] s = []"
| "minted (tx # txs) s =
     (case transact (fst tx) (snd tx) s of Inl _ \<Rightarrow> [] | Inr (evs, _) \<Rightarrow> mints_of evs)
     @ minted txs (exec tx s)"

section \<open>A concrete deployment\<close>

text \<open>
  The values below instantiate the model for concrete runs: the deployment of
  scripts/deploy.ts (the deployer registers \<open>client_001\<close> with its own address), the
  authorize request of the specification's end-to-end property, accounts without code,
  and decimal conversions in the place of those of ethers.
\<close>

fun decimal :: "nat \<Rightarrow> string" where
  "decimal n =
     (if n < 10 then [''0123456789'' ! n]
      else decimal (n div 10) @ [''0123456789'' ! (n mod 10)])"

declare decimal.simps [simp del]

definition digit_value :: "char \<Rightarrow> nat option" where
  "digit_value = map_of
     [(CHR ''0'', 0), (CHR ''1'', 1), (CHR ''2'', 2), (CHR ''3'', 3), (CHR ''4'', 4),
      (CHR ''5'', 5), (CHR ''6'', 6), (CHR ''7'', 7), (CHR ''8'', 8), (CHR ''9'', 9)]"

fun digits_value :: "nat \<Rightarrow> string \<Rightarrow> nat option" where
  "digits_value acc [] = Some acc"
| "digits_value acc (c # cs) =
     (case digit_value c of None \<Rightarrow> None | Some d \<Rightarrow> digits_value (10 * acc + d) cs)"

definition parse_uint256 :: "string \<Rightarrow> uint256 option" where
  "parse_uint256 s =
     (if s = [] then None
      else case digits_value 0 s of
             None \<Rightarrow> None
           | Some n \<Rightarrow> if n < 2 ^ 256 then Some (of_nat n) else None)"

definition operator :: address where
  "operator = 0xf39Fd6e51aad88F6F4ce6aB8827279cffFb92266"

definition alice :: address where
  "alice = 0x70997970C51812dc3A010C7d01b50e0d17dc79C8"

definition alice_string :: string where
  "alice_string = ''0x70997970C51812dc3A010C7d01b50e0d17dc79C8''"

definition no_code :: "address \<Rightarrow> receiver" where
  "no_code a = Some []"

definition at_deploy :: msg where
  "at_deploy = \<lparr>msg_sender = operator, block_timestamp = 1700000000\<rparr>"

definition by_operator :: msg where
  "by_operator = \<lparr>msg_sender = operator, block_timestamp = 1700000100\<rparr>"

definition by_alice :: msg where
  "by_alice = \<lparr>msg_sender = alice, block_timestamp = 1700000100\<rparr>"

definition deployment :: OAuthNFT where
  "deployment = exec (at_deploy, RegisterClient ''client_001'' operator) (constructor operator)"

definition example_env :: env where
  "example_env =
     \<lparr>JWT_SECRET = ''your-secret-key'',
      signer0 = operator,
      hmac = (\<lambda>secret p. secret @ c_tokenId p @ c_userAddress p @ c_clientId p @ c_scope p
                             @ decimal (iat p) @ decimal (exp p)),
      getAddress = (\<lambda>a. if a = alice_string then Some alice
                          else if a = ''0x0000000000000000000000000000000000000000'' then Some 0
                          else None),
      getUint = parse_uint256,
      toString = (\<lambda>n. decimal (unat n))\<rparr>"

definition example_clock :: clock where
  "example_clock =
     \<lparr>date_now = 1700000100000, block_time = 1700000100, rpc_up = True, code_at = no_code\<rparr>"

definition late_clock :: clock where
  "late_clock =
     \<lparr>date_now = 1700003701000, block_time = 1700000200, rpc_up = True, code_at = no_code\<rparr>"

definition example_code :: string where
  "example_code = ''0x5a17c0de''"

definition example_body :: AuthorizeBody where
  "example_body =
     \<lparr>ab_clientId = Some ''client_001'', ab_redirectUri = Some ''http://cb'',
      ab_scope = Some ''read write'', ab_state = Some ''abc'',
      ab_userAddress = Some alice_string\<rparr>"

definition example_request :: AuthorizationRequest where
  "example_request =
     \<lparr>ar_clientId = ''client_001'', ar_redirectUri = ''http://cb'', ar_scope = ''read write'',
      ar_state = Some ''abc'', ar_userAddress = alice_string\<rparr>"

definition issued :: server where
  "issued =
     snd (authorize_handler example_code \<lparr>authorizationCodes = Map.empty, ledger = deployment\<rparr>
            example_body)"

definition matching :: TokenRequest where
  "matching =
     \<lparr>tr_code = Some example_code, tr_clientId = Some ''client_001'',
      tr_clientSecret = Some ''s3cret'', tr_redirectUri = Some ''http://cb''\<rparr>"

definition mismatching :: TokenRequest where
  "mismatching =
     \<lparr>tr_code = Some example_code, tr_clientId = Some ''client_001'',
      tr_clientSecret = Some ''s3cret'', tr_redirectUri = Some ''http://evil''\<rparr>"

definition example_mint :: call where
  "example_mint =
     MintAuthToken alice ''client_001'' ''read write'' 1700003700
       (tokenURI_of ''client_001'' ''read write'') (Some [])"

definition example_txs :: "(msg \<times> call) list" where
  "example_txs = [(at_deploy, RegisterClient ''client_001'' operator), (by_operator, example_mint)]"

definition first_mint :: OAuthNFT where
  "first_mint = run example_txs (constructor operator)"

definition exchanged_state :: server where
  "exchanged_state = \<lparr>authorizationCodes = Map.empty, ledger = first_mint\<rparr>"

definition first_record :: AuthToken where
  "first_record =
     \<lparr>at_user = alice, at_clientId = ''client_001'', at_scope = ''read write'',
      at_expiresAt = 1700003700, at_revoked = False\<rparr>"

definition first_revoked :: OAuthNFT where
  "first_revoked = first_mint\<lparr>authTokens := (authTokens first_mint)(0 := first_record\<lparr>at_revoked := True\<rparr>)\<rparr>"

text \<open>
  Two mints whose receiver calls back: one revokes, from the callback, the token that is
  being minted to it; the other, made after the first mint, revokes the first token from
  the callback of the second.
\<close>

definition inside_mint :: call where
  "inside_mint =
     MintAuthToken alice ''client_001'' ''read write'' 1700003700
       (tokenURI_of ''client_001'' ''read write'') (Some [(alice, RevokeToken 0)])"

definition later_mint :: call where
  "later_mint =
     MintAuthToken alice ''client_001'' ''read'' 1700003700 [] (Some [(alice, RevokeToken 0)])"

definition later_state :: OAuthNFT where
  "later_state =
     first_revoked\<lparr>tokenIdCounter := 2,
       erc_owners := (erc_owners first_revoked)(1 := alice),
       erc_tokenURIs := (erc_tokenURIs first_revoked)(1 := []),
       authTokens := (authTokens first_revoked)(1 :=
          \<lparr>at_user = alice, at_clientId = ''client_001'', at_scope = ''read'',
           at_expiresAt = 1700003700, at_revoked = False\<rparr>),
       userTokens := (userTokens first_revoked)(alice := [0, 1])\<rparr>"

definition example_claims :: claims where
  "example_claims =
     \<lparr>c_tokenId = ''0'', c_userAddress = alice_string,
      c_clientId = ''client_001'', c_scope = ''read write''\<rparr>"

definition example_token :: bearer where
  "example_token =
     jwt_sign (hmac example_env) example_claims (JWT_SECRET example_env) 3600 1700000100"

definition example_payload :: jwt_payload where
  "example_payload = claims.extend example_claims \<lparr>iat = 1700000100, exp = 1700003700\<rparr>"

section \<open>Facts about the ledger\<close>

lemma word_less_succ: "(c::uint256) \<noteq> - 1 \<Longrightarrow> i < c + 1 \<longleftrightarrow> i < c \<or> i = c"
  by (metis inc_less_eq_iff not_le word_le_less_eq)

lemma word_lt_succ: "(c::uint256) \<noteq> - 1 \<Longrightarrow> c < c + 1"
  by (simp add: word_less_succ)

lemma word_succ_le: "(c::uint256) \<noteq> - 1 \<Longrightarrow> c + 1 \<le> i \<longleftrightarrow> c < i"
  by (metis inc_le not_le word_less_succ order_le_less)

lemma mints_of_append: "mints_of (xs @ ys) = mints_of xs @ mints_of ys"
  by (induction xs rule: mints_of.induct) simp_all

text \<open>What a successful mint did, around the calls of its receiver.\<close>

lemma mint_result:
  assumes "mintAuthToken m s user clientId scope expiresAt uri receiver = Inr (tokenId, logs, s')"
  shows "\<exists>calls evc s2.
     receiver = Some calls \<and> tokenId = tokenIdCounter s \<and> clientRegistry s clientId \<noteq> 0 \<and>
     block_timestamp m < expiresAt \<and> tokenIdCounter s \<noteq> - 1 \<and> user \<noteq> 0 \<and>
     erc_owners s tokenId = 0 \<and>
     onERC721Received m calls
       (s\<lparr>tokenIdCounter := tokenIdCounter s + 1,
          erc_owners := (erc_owners s)(tokenId := user)\<rparr>) = (evc, s2) \<and>
     logs = Transfer 0 user tokenId # evc @
              [MetadataUpdate tokenId, TokenMinted tokenId user clientId scope] \<and>
     s' = s2\<lparr>erc_tokenURIs := (erc_tokenURIs s2)(tokenId := uri),
             authTokens := (authTokens s2)(tokenId :=
               \<lparr>at_user = user, at_clientId = clientId, at_scope = scope,
                at_expiresAt = expiresAt, at_revoked = False\<rparr>),
             userTokens := (userTokens s2)(user := userTokens s2 user @ [tokenId])\<rparr>"
  using assms
  by (auto simp: mintAuthToken.simps safeMint'.simps mint'_def setTokenURI'_def Let_def
      split: if_splits sum.splits prod.splits option.splits)

lemma mint_success:
  assumes "clientRegistry s clientId \<noteq> 0" and "block_timestamp m < expiresAt"
    and "tokenIdCounter s \<noteq> - 1" and "user \<noteq> 0" and "erc_owners s (tokenIdCounter s) = 0"
    and "onERC721Received m calls
       (s\<lparr>tokenIdCounter := tokenIdCounter s + 1,
          erc_owners := (erc_owners s)(tokenIdCounter s := user)\<rparr>) = (evc, s2)"
  shows "mintAuthToken m s user clientId scope expiresAt uri (Some calls) =
     Inr (tokenIdCounter s,
          Transfer 0 user (tokenIdCounter s) # evc @
            [MetadataUpdate (tokenIdCounter s), TokenMinted (tokenIdCounter s) user clientId scope],
          s2\<lparr>erc_tokenURIs := (erc_tokenURIs s2)(tokenIdCounter s := uri),
             authTokens := (authTokens s2)(tokenIdCounter s :=
               \<lparr>at_user = user, at_clientId = clientId, at_scope = scope,
                at_expiresAt = expiresAt, at_revoked = False\<rparr>),
             userTokens := (userTokens s2)(user := userTokens s2 user @ [tokenIdCounter s])\<rparr>)"
  using assms
  by (simp add: mintAuthToken.simps safeMint'.simps mint'_def setTokenURI'_def Let_def)

text \<open>
  How a property of the events and the two states of a call is shown for every call,
  the calls of receivers included: it holds of no call at all, of one call after another,
  of each call that is not a mint, and of a mint when it holds of the calls of the
  mint's receiver.
\<close>

lemma ledger_rule:
  fixes \<Phi> :: "event list \<Rightarrow> OAuthNFT \<Rightarrow> OAuthNFT \<Rightarrow> bool"
  assumes none: "\<And>s. \<Phi> [] s s"
    and seq: "\<And>e1 e2 s s1 s2. \<Phi> e1 s s1 \<Longrightarrow> \<Phi> e2 s1 s2 \<Longrightarrow> \<Phi> (e1 @ e2) s s2"
    and other: "\<And>m c s ev s'.
        (\<And>user clientId scope expiresAt uri receiver.
            c \<noteq> MintAuthToken user clientId scope expiresAt uri receiver) \<Longrightarrow>
        transact m c s = Inr (ev, s') \<Longrightarrow> \<Phi> ev s s'"
    and mint: "\<And>s user clientId scope expiresAt uri evc s2.
        tokenIdCounter s \<noteq> - 1 \<Longrightarrow> user \<noteq> 0 \<Longrightarrow> erc_owners s (tokenIdCounter s) = 0 \<Longrightarrow>
        \<Phi> evc (s\<lparr>tokenIdCounter := tokenIdCounter s + 1,
                  erc_owners := (erc_owners s)(tokenIdCounter s := user)\<rparr>) s2 \<Longrightarrow>
        \<Phi> (Transfer 0 user (tokenIdCounter s) # evc @
             [MetadataUpdate (tokenIdCounter s), TokenMinted (tokenIdCounter s) user clientId scope])
          s
          (s2\<lparr>erc_tokenURIs := (erc_tokenURIs s2)(tokenIdCounter s := uri),
             authTokens := (authTokens s2)(tokenIdCounter s :=
               \<lparr>at_user = user, at_clientId = clientId, at_scope = scope,
                at_expiresAt = expiresAt, at_revoked = False\<rparr>),
             userTokens := (userTokens s2)(user := userTokens s2 user @ [tokenIdCounter s])\<rparr>)"
  shows "\<forall>tokenId ev s'.
           mintAuthToken m1 s1 user clientId scope expiresAt uri receiver = Inr (tokenId, ev, s')
           \<longrightarrow> \<Phi> ev s1 s'"
    and "\<forall>calls ev1 sm evc s2.
           mint' sq to tokenId2 = Inr (ev1, sm) \<and> receiver2 = Some calls \<and>
           onERC721Received m2 calls sm = (evc, s2) \<longrightarrow> \<Phi> evc sm s2"
    and "\<forall>ev s'. onERC721Received m3 calls3 s3 = (ev, s') \<longrightarrow> \<Phi> ev s3 s'"
    and "\<forall>ev s'. transact m4 c4 s4 = Inr (ev, s') \<longrightarrow> \<Phi> ev s4 s'"
proof (induct m1 s1 user clientId scope expiresAt uri receiver
          and m2 sq to tokenId2 receiver2 and m3 calls3 s3 and m4 c4 s4
          rule: mintAuthToken_safeMint'_onERC721Received_transact.induct)
  case (1 m s user clientId scope expiresAt tokenURI receiver)
  show ?case
  proof (intro allI impI)
    fix tokenId ev s'
    assume a: "mintAuthToken m s user clientId scope expiresAt tokenURI receiver
        = Inr (tokenId, ev, s')"
    from mint_result[OF a] obtain calls evc s2 where r:
      "receiver = Some calls" "tokenId = tokenIdCounter s" "clientRegistry s clientId \<noteq> 0"
      "block_timestamp m < expiresAt" "tokenIdCounter s \<noteq> - 1" "user \<noteq> 0"
      "erc_owners s tokenId = 0"
      "onERC721Received m calls
         (s\<lparr>tokenIdCounter := tokenIdCounter s + 1,
            erc_owners := (erc_owners s)(tokenId := user)\<rparr>) = (evc, s2)"
      "ev = Transfer 0 user tokenId # evc @
              [MetadataUpdate tokenId, TokenMinted tokenId user clientId scope]"
      "s' = s2\<lparr>erc_tokenURIs := (erc_tokenURIs s2)(tokenId := tokenURI),
             authTokens := (authTokens s2)(tokenId :=
               \<lparr>at_user = user, at_clientId = clientId, at_scope = scope,
                at_expiresAt = expiresAt, at_revoked = False\<rparr>),
             userTokens := (userTokens s2)(user := userTokens s2 user @ [tokenId])\<rparr>"
      by blast
    have m': "mint' (s\<lparr>tokenIdCounter := tokenIdCounter s + 1\<rparr>) user (tokenIdCounter s)
        = Inr ([Transfer 0 user (tokenIdCounter s)],
               s\<lparr>tokenIdCounter := tokenIdCounter s + 1,
                 erc_owners := (erc_owners s)(tokenIdCounter s := user)\<rparr>)"
      using r(2,6,7) by (simp add: mint'_def)
    have "\<Phi> evc (s\<lparr>tokenIdCounter := tokenIdCounter s + 1,
                  erc_owners := (erc_owners s)(tokenIdCounter s := user)\<rparr>) s2"
      using 1[OF r(3) _ refl r(5) refl] r(4) m' r(1) r(8)[unfolded r(2)] by blast
    from mint[OF r(5) r(6) r(7)[unfolded r(2)] this] show "\<Phi> ev s s'"
      unfolding r(9,10) r(2) .
  qed
next
  case (2 m s to tokenId receiver)
  then show ?case by blast
next
  case (3 m s)
  show ?case by (simp add: none)
next
  case (4 m sender c calls s)
  show ?case
  proof (intro allI impI)
    fix ev s'
    assume a: "onERC721Received m ((sender, c) # calls) s = (ev, s')"
    show "\<Phi> ev s s'"
    proof (cases "transact (m\<lparr>msg_sender := sender\<rparr>) c s")
      case (Inl r)
      then show ?thesis using a 4(2) by simp
    next
      case (Inr b)
      obtain ev1 sa where b: "b = (ev1, sa)" by (cases b) auto
      obtain ev2 sb where rest: "onERC721Received m calls sa = (ev2, sb)"
        by (cases "onERC721Received m calls sa") auto
      have "\<Phi> ev1 s sa" using 4(1) Inr b by simp
      moreover have "\<Phi> ev2 sa sb" using 4(3)[OF Inr b[symmetric]] rest by simp
      ultimately have "\<Phi> (ev1 @ ev2) s sb" by (rule seq)
      then show ?thesis using a Inr b rest by simp
    qed
  qed
next
  case (6 m user clientId scope expiresAt tokenURI receiver s)
  then show ?case by (auto split: sum.splits)
qed (auto intro: other)


text \<open>A call that is not a mint: what it leaves as it was.\<close>

lemma other_calls:
  assumes "\<And>user clientId scope expiresAt uri receiver.
            c \<noteq> MintAuthToken user clientId scope expiresAt uri receiver"
    and "transact m c s = Inr (ev, s')"
  shows "tokenIdCounter s' = tokenIdCounter s"
    and "mints_of ev = []"
    and "(erc_owners s' i \<noteq> 0) = (erc_owners s i \<noteq> 0)"
    and "at_revoked (authTokens s i) \<Longrightarrow> at_revoked (authTokens s' i)"
    and "TokenRevoked i \<in> set ev \<Longrightarrow> at_revoked (authTokens s' i)"
proof -
  have nm: "\<not> (\<exists>user clientId scope expiresAt uri receiver.
            c = MintAuthToken user clientId scope expiresAt uri receiver)"
    using assms(1) by blast
  show "tokenIdCounter s' = tokenIdCounter s"
    using nm assms(2)
    by (cases c) (auto simp: registerClient_def revokeToken_def transferFrom_def
        transferOwnership_def renounceOwnership_def split: if_splits sum.splits)
  show "mints_of ev = []"
    using nm assms(2)
    by (cases c) (auto simp: registerClient_def revokeToken_def transferFrom_def
        transferOwnership_def renounceOwnership_def split: if_splits sum.splits)
  show "(erc_owners s' i \<noteq> 0) = (erc_owners s i \<noteq> 0)"
    using nm assms(2)
    by (cases c) (auto simp: registerClient_def revokeToken_def transferFrom_def
        transferOwnership_def renounceOwnership_def split: if_splits sum.splits)
  show "at_revoked (authTokens s i) \<Longrightarrow> at_revoked (authTokens s' i)"
    using nm assms(2)
    by (cases c) (auto simp: registerClient_def revokeToken_def transferFrom_def
        transferOwnership_def renounceOwnership_def split: if_splits sum.splits)
  show "TokenRevoked i \<in> set ev \<Longrightarrow> at_revoked (authTokens s' i)"
    using nm assms(2)
    by (cases c) (auto simp: registerClient_def revokeToken_def transferFrom_def
        transferOwnership_def renounceOwnership_def split: if_splits sum.splits)
qed

text \<open>The counter never goes down, and a mint moves it up.\<close>

lemma counter_mono:
  shows "transact m c s = Inr (ev, s') \<Longrightarrow> tokenIdCounter s \<le> tokenIdCounter s'"
    and "onERC721Received m calls s = (ev, s') \<Longrightarrow> tokenIdCounter s \<le> tokenIdCounter s'"
proof -
  define \<Phi> :: "event list \<Rightarrow> OAuthNFT \<Rightarrow> OAuthNFT \<Rightarrow> bool"
    where "\<Phi> = (\<lambda>ev s s'. tokenIdCounter s \<le> tokenIdCounter s')"
  have none: "\<And>s. \<Phi> [] s s" by (simp add: \<Phi>_def)
  have seq: "\<And>e1 e2 s s1 s2. \<Phi> e1 s s1 \<Longrightarrow> \<Phi> e2 s1 s2 \<Longrightarrow> \<Phi> (e1 @ e2) s s2"
    by (simp add: \<Phi>_def)
  have other: "\<And>m c s ev s'.
        (\<And>user clientId scope expiresAt uri receiver.
            c \<noteq> MintAuthToken user clientId scope expiresAt uri receiver) \<Longrightarrow>
        transact m c s = Inr (ev, s') \<Longrightarrow> \<Phi> ev s s'"
  proof -
    fix m c s ev s'
    assume nm: "\<And>user clientId scope expiresAt uri receiver.
            c \<noteq> MintAuthToken user clientId scope expiresAt uri receiver"
      and t: "transact m c s = Inr (ev, s')"
    from other_calls(1)[OF nm t] show "\<Phi> ev s s'" by (simp add: \<Phi>_def)
  qed
  have mint: "\<And>s user clientId scope expiresAt uri evc s2.
        tokenIdCounter s \<noteq> - 1 \<Longrightarrow> user \<noteq> 0 \<Longrightarrow> erc_owners s (tokenIdCounter s) = 0 \<Longrightarrow>
        \<Phi> evc (s\<lparr>tokenIdCounter := tokenIdCounter s + 1,
                  erc_owners := (erc_owners s)(tokenIdCounter s := user)\<rparr>) s2 \<Longrightarrow>
        \<Phi> (Transfer 0 user (tokenIdCounter s) # evc @
             [MetadataUpdate (tokenIdCounter s), TokenMinted (tokenIdCounter s) user clientId scope])
          s
          (s2\<lparr>erc_tokenURIs := (erc_tokenURIs s2)(tokenIdCounter s := uri),
             authTokens := (authTokens s2)(tokenIdCounter s :=
               \<lparr>at_user = user, at_clientId = clientId, at_scope = scope,
                at_expiresAt = expiresAt, at_revoked = False\<rparr>),
             userTokens := (userTokens s2)(user := userTokens s2 user @ [tokenIdCounter s])\<rparr>)"
  proof -
    fix s :: OAuthNFT and user :: address and clientId scope uri :: string
      and expiresAt :: uint256 and evc :: "event list" and s2 :: OAuthNFT
    assume c: "tokenIdCounter s \<noteq> - 1"
      and h: "\<Phi> evc (s\<lparr>tokenIdCounter := tokenIdCounter s + 1,
                  erc_owners := (erc_owners s)(tokenIdCounter s := user)\<rparr>) s2"
    have "tokenIdCounter s \<le> tokenIdCounter s + 1" using word_lt_succ[OF c] by simp
    then show "\<Phi> (Transfer 0 user (tokenIdCounter s) # evc @
             [MetadataUpdate (tokenIdCounter s), TokenMinted (tokenIdCounter s) user clientId scope])
          s
          (s2\<lparr>erc_tokenURIs := (erc_tokenURIs s2)(tokenIdCounter s := uri),
             authTokens := (authTokens s2)(tokenIdCounter s :=
               \<lparr>at_user = user, at_clientId = clientId, at_scope = scope,
                at_expiresAt = expiresAt, at_revoked = False\<rparr>),
             userTokens := (userTokens s2)(user := userTokens s2 user @ [tokenIdCounter s])\<rparr>)"
      using h by (simp add: \<Phi>_def)
  qed
  have "\<forall>ev s'. transact m c s = Inr (ev, s') \<longrightarrow> \<Phi> ev s s'"
    by (rule ledger_rule(4)[where \<Phi> = \<Phi>, OF none seq other mint])
  then show "transact m c s = Inr (ev, s') \<Longrightarrow> tokenIdCounter s \<le> tokenIdCounter s'"
    by (simp add: \<Phi>_def)
  have "\<forall>ev s'. onERC721Received m calls s = (ev, s') \<longrightarrow> \<Phi> ev s s'"
    by (rule ledger_rule(3)[where \<Phi> = \<Phi>, OF none seq other mint])
  then show "onERC721Received m calls s = (ev, s') \<Longrightarrow> tokenIdCounter s \<le> tokenIdCounter s'"
    by (simp add: \<Phi>_def)
qed

lemma interval_insert:
  fixes c n :: uint256
  assumes "c \<noteq> - 1" and "c < n"
  shows "insert c {i. c + 1 \<le> i \<and> i < n} = {i. c \<le> i \<and> i < n}"
proof (intro set_eqI iffI)
  fix i
  assume "i \<in> insert c {i. c + 1 \<le> i \<and> i < n}"
  then have "i = c \<or> (c < i \<and> i < n)" using assms(1) by (simp add: word_succ_le)
  then show "i \<in> {i. c \<le> i \<and> i < n}" using assms(2) by (auto simp: order_le_less)
next
  fix i
  assume "i \<in> {i. c \<le> i \<and> i < n}"
  then have "i = c \<or> (c < i \<and> i < n)" by (auto simp: order_le_less)
  then show "i \<in> insert c {i. c + 1 \<le> i \<and> i < n}" using assms(1) by (simp add: word_succ_le)
qed

lemma interval_append:
  fixes a b c :: uint256
  assumes "a \<le> b" and "b \<le> c"
  shows "{i. a \<le> i \<and> i < b} \<union> {i. b \<le> i \<and> i < c} = {i. a \<le> i \<and> i < c}"
    and "{i. a \<le> i \<and> i < b} \<inter> {i. b \<le> i \<and> i < c} = {}"
proof -
  show "{i. a \<le> i \<and> i < b} \<union> {i. b \<le> i \<and> i < c} = {i. a \<le> i \<and> i < c}"
  proof (intro set_eqI iffI)
    fix i
    assume "i \<in> {i. a \<le> i \<and> i < b} \<union> {i. b \<le> i \<and> i < c}"
    then show "i \<in> {i. a \<le> i \<and> i < c}"
      using assms by (metis (mono_tags, lifting) Un_iff mem_Collect_eq order_less_le_trans order_trans)
  next
    fix i
    assume "i \<in> {i. a \<le> i \<and> i < c}"
    then show "i \<in> {i. a \<le> i \<and> i < b} \<union> {i. b \<le> i \<and> i < c}"
      by (metis (mono_tags, lifting) Un_iff mem_Collect_eq not_le)
  qed
  show "{i. a \<le> i \<and> i < b} \<inter> {i. b \<le> i \<and> i < c} = {}"
    by (metis (mono_tags, lifting) disjoint_iff mem_Collect_eq not_le)
qed


lemma mint_counter:
  assumes "mintAuthToken m s user clientId scope expiresAt uri receiver = Inr (tokenId, logs, s')"
  shows "tokenId = tokenIdCounter s" and "tokenIdCounter s < tokenIdCounter s'"
proof -
  from mint_result[OF assms] obtain calls evc s2 where r:
    "tokenId = tokenIdCounter s" "tokenIdCounter s \<noteq> - 1"
    "onERC721Received m calls
       (s\<lparr>tokenIdCounter := tokenIdCounter s + 1,
          erc_owners := (erc_owners s)(tokenId := user)\<rparr>) = (evc, s2)"
    "tokenIdCounter s' = tokenIdCounter s2"
    by auto
  show "tokenId = tokenIdCounter s" by (rule r(1))
  have "tokenIdCounter s + 1 \<le> tokenIdCounter s2" using counter_mono(2)[OF r(3)] by simp
  then show "tokenIdCounter s < tokenIdCounter s'"
    using r(2,4) by (simp add: word_succ_le)
qed

lemma exec_counter_mono: "tokenIdCounter s \<le> tokenIdCounter (exec tx s)"
  using counter_mono(1)[of "fst tx" "snd tx" s]
  by (auto simp: exec_def split: sum.splits)

lemma run_counter_mono: "tokenIdCounter s \<le> tokenIdCounter (run txs s)"
  unfolding run_def
proof (induction txs arbitrary: s)
  case Nil
  show ?case by simp
next
  case (Cons tx txs)
  have "tokenIdCounter s \<le> tokenIdCounter (exec tx s)" by (rule exec_counter_mono)
  also have "\<dots> \<le> tokenIdCounter (fold exec txs (exec tx s))" by (rule Cons.IH)
  finally show ?case by simp
qed

text \<open>The tokens that have an owner are those below the counter.\<close>

lemma owned_below:
  assumes "\<forall>i. erc_owners s i \<noteq> 0 \<longleftrightarrow> i < tokenIdCounter s"
  shows "transact m c s = Inr (ev, s') \<Longrightarrow>
           \<forall>i. erc_owners s' i \<noteq> 0 \<longleftrightarrow> i < tokenIdCounter s'"
    and "onERC721Received m calls s = (ev, s') \<Longrightarrow>
           \<forall>i. erc_owners s' i \<noteq> 0 \<longleftrightarrow> i < tokenIdCounter s'"
proof -
  define \<Phi> :: "event list \<Rightarrow> OAuthNFT \<Rightarrow> OAuthNFT \<Rightarrow> bool"
    where "\<Phi> = (\<lambda>ev s s'. (\<forall>i. erc_owners s i \<noteq> 0 \<longleftrightarrow> i < tokenIdCounter s) \<longrightarrow>
                               (\<forall>i. erc_owners s' i \<noteq> 0 \<longleftrightarrow> i < tokenIdCounter s'))"
  have none: "\<And>s. \<Phi> [] s s" by (simp add: \<Phi>_def)
  have seq: "\<And>e1 e2 s s1 s2. \<Phi> e1 s s1 \<Longrightarrow> \<Phi> e2 s1 s2 \<Longrightarrow> \<Phi> (e1 @ e2) s s2"
    unfolding \<Phi>_def by blast
  have other: "\<And>m c s ev s'.
        (\<And>user clientId scope expiresAt uri receiver.
            c \<noteq> MintAuthToken user clientId scope expiresAt uri receiver) \<Longrightarrow>
        transact m c s = Inr (ev, s') \<Longrightarrow> \<Phi> ev s s'"
  proof -
    fix m c s ev s'
    assume nm: "\<And>user clientId scope expiresAt uri receiver.
            c \<noteq> MintAuthToken user clientId scope expiresAt uri receiver"
      and t: "transact m c s = Inr (ev, s')"
    show "\<Phi> ev s s'"
      unfolding \<Phi>_def using other_calls(1)[OF nm t] other_calls(3)[OF nm t] by simp
  qed
  have mint: "\<And>s user clientId scope expiresAt uri evc s2.
        tokenIdCounter s \<noteq> - 1 \<Longrightarrow> user \<noteq> 0 \<Longrightarrow> erc_owners s (tokenIdCounter s) = 0 \<Longrightarrow>
        \<Phi> evc (s\<lparr>tokenIdCounter := tokenIdCounter s + 1,
                  erc_owners := (erc_owners s)(tokenIdCounter s := user)\<rparr>) s2 \<Longrightarrow>
        \<Phi> (Transfer 0 user (tokenIdCounter s) # evc @
             [MetadataUpdate (tokenIdCounter s), TokenMinted (tokenIdCounter s) user clientId scope])
          s
          (s2\<lparr>erc_tokenURIs := (erc_tokenURIs s2)(tokenIdCounter s := uri),
             authTokens := (authTokens s2)(tokenIdCounter s :=
               \<lparr>at_user = user, at_clientId = clientId, at_scope = scope,
                at_expiresAt = expiresAt, at_revoked = False\<rparr>),
             userTokens := (userTokens s2)(user := userTokens s2 user @ [tokenIdCounter s])\<rparr>)"
  proof -
    fix s :: OAuthNFT and user :: address and clientId scope uri :: string
      and expiresAt :: uint256 and evc :: "event list" and s2 :: OAuthNFT
    assume c: "tokenIdCounter s \<noteq> - 1" and u: "user \<noteq> 0"
      and h: "\<Phi> evc (s\<lparr>tokenIdCounter := tokenIdCounter s + 1,
                  erc_owners := (erc_owners s)(tokenIdCounter s := user)\<rparr>) s2"
    show "\<Phi> (Transfer 0 user (tokenIdCounter s) # evc @
             [MetadataUpdate (tokenIdCounter s), TokenMinted (tokenIdCounter s) user clientId scope])
          s
          (s2\<lparr>erc_tokenURIs := (erc_tokenURIs s2)(tokenIdCounter s := uri),
             authTokens := (authTokens s2)(tokenIdCounter s :=
               \<lparr>at_user = user, at_clientId = clientId, at_scope = scope,
                at_expiresAt = expiresAt, at_revoked = False\<rparr>),
             userTokens := (userTokens s2)(user := userTokens s2 user @ [tokenIdCounter s])\<rparr>)"
      unfolding \<Phi>_def
    proof (intro impI)
      assume "\<forall>i. erc_owners s i \<noteq> 0 \<longleftrightarrow> i < tokenIdCounter s"
      then have "\<forall>i. erc_owners (s\<lparr>tokenIdCounter := tokenIdCounter s + 1,
                  erc_owners := (erc_owners s)(tokenIdCounter s := user)\<rparr>) i \<noteq> 0 \<longleftrightarrow>
                i < tokenIdCounter (s\<lparr>tokenIdCounter := tokenIdCounter s + 1,
                  erc_owners := (erc_owners s)(tokenIdCounter s := user)\<rparr>)"
        using c u by (auto simp: word_less_succ)
      then have "\<forall>i. erc_owners s2 i \<noteq> 0 \<longleftrightarrow> i < tokenIdCounter s2"
        using h unfolding \<Phi>_def by blast
      then show "\<forall>i. erc_owners (s2\<lparr>erc_tokenURIs := (erc_tokenURIs s2)(tokenIdCounter s := uri),
             authTokens := (authTokens s2)(tokenIdCounter s :=
               \<lparr>at_user = user, at_clientId = clientId, at_scope = scope,
                at_expiresAt = expiresAt, at_revoked = False\<rparr>),
             userTokens := (userTokens s2)(user := userTokens s2 user @ [tokenIdCounter s])\<rparr>) i
               \<noteq> 0 \<longleftrightarrow>
             i < tokenIdCounter (s2\<lparr>erc_tokenURIs := (erc_tokenURIs s2)(tokenIdCounter s := uri),
             authTokens := (authTokens s2)(tokenIdCounter s :=
               \<lparr>at_user = user, at_clientId = clientId, at_scope = scope,
                at_expiresAt = expiresAt, at_revoked = False\<rparr>),
             userTokens := (userTokens s2)(user := userTokens s2 user @ [tokenIdCounter s])\<rparr>)"
        by simp
    qed
  qed
  have "\<forall>ev s'. transact m c s = Inr (ev, s') \<longrightarrow> \<Phi> ev s s'"
    by (rule ledger_rule(4)[where \<Phi> = \<Phi>, OF none seq other mint])
  then show "transact m c s = Inr (ev, s') \<Longrightarrow>
           \<forall>i. erc_owners s' i \<noteq> 0 \<longleftrightarrow> i < tokenIdCounter s'"
    using assms unfolding \<Phi>_def by blast
  have "\<forall>ev s'. onERC721Received m calls s = (ev, s') \<longrightarrow> \<Phi> ev s s'"
    by (rule ledger_rule(3)[where \<Phi> = \<Phi>, OF none seq other mint])
  then show "onERC721Received m calls s = (ev, s') \<Longrightarrow>
           \<forall>i. erc_owners s' i \<noteq> 0 \<longleftrightarrow> i < tokenIdCounter s'"
    using assms unfolding \<Phi>_def by blast
qed

lemma exec_owned_below:
  assumes "\<forall>i. erc_owners s i \<noteq> 0 \<longleftrightarrow> i < tokenIdCounter s"
  shows "\<forall>i. erc_owners (exec tx s) i \<noteq> 0 \<longleftrightarrow> i < tokenIdCounter (exec tx s)"
proof (cases "transact (fst tx) (snd tx) s")
  case (Inl r)
  then show ?thesis using assms by (simp add: exec_def)
next
  case (Inr b)
  obtain ev s' where b: "b = (ev, s')" by (cases b) auto
  from owned_below(1)[OF assms Inr[unfolded b]] show ?thesis using Inr b by (simp add: exec_def)
qed

lemma reachable_owned_below:
  "reachable s \<Longrightarrow> \<forall>i. erc_owners s i \<noteq> 0 \<longleftrightarrow> i < tokenIdCounter s"
proof (induction rule: reachable.induct)
  case (deployed deployer)
  show ?case by (simp add: constructor_def)
next
  case (mined s tx)
  then show ?case by (intro exec_owned_below)
qed

lemma reachable_exists:
  "reachable s \<Longrightarrow> exists' s tokenId \<longleftrightarrow> tokenId < tokenIdCounter s"
  using reachable_owned_below[of s] by (simp add: exists'_def ownerOf'_def)

lemma reachable_run: "reachable s \<Longrightarrow> reachable (run txs s)"
  unfolding run_def
  by (induction txs arbitrary: s) (auto intro: reachable.mined)

text \<open>
  The ids of the mints a call commits are the ids the counter passed, each once.
\<close>

lemma mints_interval:
  "transact m c s = Inr (ev, s') \<Longrightarrow>
     distinct (mints_of ev) \<and>
     set (mints_of ev) = {i. tokenIdCounter s \<le> i \<and> i < tokenIdCounter s'}"
proof -
  define \<Phi> :: "event list \<Rightarrow> OAuthNFT \<Rightarrow> OAuthNFT \<Rightarrow> bool"
    where "\<Phi> = (\<lambda>ev s s'. tokenIdCounter s \<le> tokenIdCounter s' \<and> distinct (mints_of ev) \<and>
      set (mints_of ev) = {i. tokenIdCounter s \<le> i \<and> i < tokenIdCounter s'})"
  have none: "\<And>s. \<Phi> [] s s" by (auto simp: \<Phi>_def)
  have seq: "\<And>e1 e2 s s1 s2. \<Phi> e1 s s1 \<Longrightarrow> \<Phi> e2 s1 s2 \<Longrightarrow> \<Phi> (e1 @ e2) s s2"
  proof -
    fix e1 e2 :: "event list" and s s1 s2 :: OAuthNFT
    assume a: "\<Phi> e1 s s1" and b: "\<Phi> e2 s1 s2"
    have le: "tokenIdCounter s \<le> tokenIdCounter s1" "tokenIdCounter s1 \<le> tokenIdCounter s2"
      using a b by (simp_all add: \<Phi>_def)
    have "distinct (mints_of e1 @ mints_of e2)"
      using a b interval_append(2)[OF le] by (simp add: \<Phi>_def)
    moreover have "set (mints_of e1 @ mints_of e2) =
        {i. tokenIdCounter s \<le> i \<and> i < tokenIdCounter s2}"
      using a b interval_append(1)[OF le] by (simp add: \<Phi>_def)
    ultimately show "\<Phi> (e1 @ e2) s s2"
      using le by (simp add: \<Phi>_def mints_of_append)
  qed
  have other: "\<And>m c s ev s'.
        (\<And>user clientId scope expiresAt uri receiver.
            c \<noteq> MintAuthToken user clientId scope expiresAt uri receiver) \<Longrightarrow>
        transact m c s = Inr (ev, s') \<Longrightarrow> \<Phi> ev s s'"
  proof -
    fix m c s ev s'
    assume nm: "\<And>user clientId scope expiresAt uri receiver.
            c \<noteq> MintAuthToken user clientId scope expiresAt uri receiver"
      and t: "transact m c s = Inr (ev, s')"
    show "\<Phi> ev s s'"
      unfolding \<Phi>_def using other_calls(1)[OF nm t] other_calls(2)[OF nm t] by auto
  qed
  have mint: "\<And>s user clientId scope expiresAt uri evc s2.
        tokenIdCounter s \<noteq> - 1 \<Longrightarrow> user \<noteq> 0 \<Longrightarrow> erc_owners s (tokenIdCounter s) = 0 \<Longrightarrow>
        \<Phi> evc (s\<lparr>tokenIdCounter := tokenIdCounter s + 1,
                  erc_owners := (erc_owners s)(tokenIdCounter s := user)\<rparr>) s2 \<Longrightarrow>
        \<Phi> (Transfer 0 user (tokenIdCounter s) # evc @
             [MetadataUpdate (tokenIdCounter s), TokenMinted (tokenIdCounter s) user clientId scope])
          s
          (s2\<lparr>erc_tokenURIs := (erc_tokenURIs s2)(tokenIdCounter s := uri),
             authTokens := (authTokens s2)(tokenIdCounter s :=
               \<lparr>at_user = user, at_clientId = clientId, at_scope = scope,
                at_expiresAt = expiresAt, at_revoked = False\<rparr>),
             userTokens := (userTokens s2)(user := userTokens s2 user @ [tokenIdCounter s])\<rparr>)"
  proof -
    fix s :: OAuthNFT and user :: address and clientId scope uri :: string
      and expiresAt :: uint256 and evc :: "event list" and s2 :: OAuthNFT
    assume c: "tokenIdCounter s \<noteq> - 1" and u: "user \<noteq> 0"
      and h: "\<Phi> evc (s\<lparr>tokenIdCounter := tokenIdCounter s + 1,
                  erc_owners := (erc_owners s)(tokenIdCounter s := user)\<rparr>) s2"
    let ?c = "tokenIdCounter s"
    from h have le: "?c + 1 \<le> tokenIdCounter s2" and d: "distinct (mints_of evc)"
      and st: "set (mints_of evc) = {i. ?c + 1 \<le> i \<and> i < tokenIdCounter s2}"
      by (simp_all add: \<Phi>_def)
    have lt: "?c < tokenIdCounter s2" using le c by (simp add: word_succ_le)
    have m: "mints_of (Transfer 0 user ?c # evc @
             [MetadataUpdate ?c, TokenMinted ?c user clientId scope]) = mints_of evc @ [?c]"
      by (simp add: mints_of_append)
    have notin: "?c \<notin> set (mints_of evc)" using st c by (simp add: word_succ_le)
    have "set (mints_of evc @ [?c]) = {i. ?c \<le> i \<and> i < tokenIdCounter s2}"
      using interval_insert[OF c lt] st by simp
    then show "\<Phi> (Transfer 0 user (tokenIdCounter s) # evc @
             [MetadataUpdate (tokenIdCounter s), TokenMinted (tokenIdCounter s) user clientId scope])
          s
          (s2\<lparr>erc_tokenURIs := (erc_tokenURIs s2)(tokenIdCounter s := uri),
             authTokens := (authTokens s2)(tokenIdCounter s :=
               \<lparr>at_user = user, at_clientId = clientId, at_scope = scope,
                at_expiresAt = expiresAt, at_revoked = False\<rparr>),
             userTokens := (userTokens s2)(user := userTokens s2 user @ [tokenIdCounter s])\<rparr>)"
      unfolding \<Phi>_def m using d notin lt by simp
  qed
  have "\<forall>ev s'. transact m c s = Inr (ev, s') \<longrightarrow> \<Phi> ev s s'"
    by (rule ledger_rule(4)[where \<Phi> = \<Phi>, OF none seq other mint])
  then show "transact m c s = Inr (ev, s') \<Longrightarrow>
     distinct (mints_of ev) \<and>
     set (mints_of ev) = {i. tokenIdCounter s \<le> i \<and> i < tokenIdCounter s'}"
    by (simp add: \<Phi>_def)
qed

lemma minted_interval:
  "distinct (minted txs s) \<and>
   set (minted txs s) = {i. tokenIdCounter s \<le> i \<and> i < tokenIdCounter (run txs s)}"
proof (induction txs arbitrary: s)
  case Nil
  show ?case by (auto simp: run_def)
next
  case (Cons tx txs)
  have run: "run (tx # txs) s = run txs (exec tx s)" by (simp add: run_def)
  note IH = Cons.IH[of "exec tx s"]
  show ?case
  proof (cases "transact (fst tx) (snd tx) s")
    case (Inl r)
    then have "exec tx s = s" "minted (tx # txs) s = minted txs s" by (simp_all add: exec_def)
    then show ?thesis using IH run by simp
  next
    case (Inr b)
    obtain ev s' where b: "b = (ev, s')" by (cases b) auto
    have e: "exec tx s = s'" using Inr b by (simp add: exec_def)
    have mi: "minted (tx # txs) s = mints_of ev @ minted txs s'" using Inr b e by simp
    note a = mints_interval[OF Inr[unfolded b]]
    have le1: "tokenIdCounter s \<le> tokenIdCounter s'" using exec_counter_mono[of s tx] e by simp
    have le2: "tokenIdCounter s' \<le> tokenIdCounter (run txs s')" by (rule run_counter_mono)
    have "distinct (mints_of ev @ minted txs s')"
      using a IH[unfolded e] interval_append(2)[OF le1 le2] by simp
    moreover have "set (mints_of ev @ minted txs s') =
        {i. tokenIdCounter s \<le> i \<and> i < tokenIdCounter (run txs s')}"
      using a IH[unfolded e] interval_append(1)[OF le1 le2] by simp
    ultimately show ?thesis unfolding mi run e by simp
  qed
qed

lemma minted_constructor:
  "tokenId \<in> set (minted txs (constructor deployer)) \<longleftrightarrow>
   tokenId < tokenIdCounter (run txs (constructor deployer))"
  using minted_interval[of txs "constructor deployer"] by (auto simp: constructor_def)

text \<open>
  No call clears the flag of a token that was below the counter when the call began,
  and a revoke of such a token inside the call, shown by its event, leaves it set.
\<close>

lemma revoked_stays:
  "transact m c s = Inr (ev, s') \<Longrightarrow> i < tokenIdCounter s \<Longrightarrow>
     at_revoked (authTokens s i) \<or> TokenRevoked i \<in> set ev \<Longrightarrow>
     at_revoked (authTokens s' i)"
proof -
  define \<Phi> :: "event list \<Rightarrow> OAuthNFT \<Rightarrow> OAuthNFT \<Rightarrow> bool"
    where "\<Phi> = (\<lambda>ev s s'. tokenIdCounter s \<le> tokenIdCounter s' \<and>
      (\<forall>i. i < tokenIdCounter s \<and> (at_revoked (authTokens s i) \<or> TokenRevoked i \<in> set ev)
           \<longrightarrow> at_revoked (authTokens s' i)))"
  have none: "\<And>s. \<Phi> [] s s" by (auto simp: \<Phi>_def)
  have seq: "\<And>e1 e2 s s1 s2. \<Phi> e1 s s1 \<Longrightarrow> \<Phi> e2 s1 s2 \<Longrightarrow> \<Phi> (e1 @ e2) s s2"
  proof -
    fix e1 e2 :: "event list" and s s1 s2 :: OAuthNFT
    assume a: "\<Phi> e1 s s1" and b: "\<Phi> e2 s1 s2"
    have le: "tokenIdCounter s \<le> tokenIdCounter s1" "tokenIdCounter s1 \<le> tokenIdCounter s2"
      using a b by (simp_all add: \<Phi>_def)
    have "at_revoked (authTokens s2 i)"
      if "i < tokenIdCounter s" "at_revoked (authTokens s i) \<or> TokenRevoked i \<in> set (e1 @ e2)" for i
    proof -
      have i1: "i < tokenIdCounter s1" using that(1) le(1) by simp
      show ?thesis
      proof (cases "at_revoked (authTokens s i) \<or> TokenRevoked i \<in> set e1")
        case True
        then have "at_revoked (authTokens s1 i)" using a that(1) unfolding \<Phi>_def by blast
        then show ?thesis using b i1 unfolding \<Phi>_def by blast
      next
        case False
        then have "TokenRevoked i \<in> set e2" using that(2) by auto
        then show ?thesis using b i1 unfolding \<Phi>_def by blast
      qed
    qed
    then show "\<Phi> (e1 @ e2) s s2" using le unfolding \<Phi>_def by auto
  qed
  have other: "\<And>m c s ev s'.
        (\<And>user clientId scope expiresAt uri receiver.
            c \<noteq> MintAuthToken user clientId scope expiresAt uri receiver) \<Longrightarrow>
        transact m c s = Inr (ev, s') \<Longrightarrow> \<Phi> ev s s'"
  proof -
    fix m c s ev s'
    assume nm: "\<And>user clientId scope expiresAt uri receiver.
            c \<noteq> MintAuthToken user clientId scope expiresAt uri receiver"
      and t: "transact m c s = Inr (ev, s')"
    show "\<Phi> ev s s'"
      unfolding \<Phi>_def
      using other_calls(1)[OF nm t] other_calls(4)[OF nm t] other_calls(5)[OF nm t] by auto
  qed
  have mint: "\<And>s user clientId scope expiresAt uri evc s2.
        tokenIdCounter s \<noteq> - 1 \<Longrightarrow> user \<noteq> 0 \<Longrightarrow> erc_owners s (tokenIdCounter s) = 0 \<Longrightarrow>
        \<Phi> evc (s\<lparr>tokenIdCounter := tokenIdCounter s + 1,
                  erc_owners := (erc_owners s)(tokenIdCounter s := user)\<rparr>) s2 \<Longrightarrow>
        \<Phi> (Transfer 0 user (tokenIdCounter s) # evc @
             [MetadataUpdate (tokenIdCounter s), TokenMinted (tokenIdCounter s) user clientId scope])
          s
          (s2\<lparr>erc_tokenURIs := (erc_tokenURIs s2)(tokenIdCounter s := uri),
             authTokens := (authTokens s2)(tokenIdCounter s :=
               \<lparr>at_user = user, at_clientId = clientId, at_scope = scope,
                at_expiresAt = expiresAt, at_revoked = False\<rparr>),
             userTokens := (userTokens s2)(user := userTokens s2 user @ [tokenIdCounter s])\<rparr>)"
  proof -
    fix s :: OAuthNFT and user :: address and clientId scope uri :: string
      and expiresAt :: uint256 and evc :: "event list" and s2 :: OAuthNFT
    assume c: "tokenIdCounter s \<noteq> - 1" and u: "user \<noteq> 0"
      and h: "\<Phi> evc (s\<lparr>tokenIdCounter := tokenIdCounter s + 1,
                  erc_owners := (erc_owners s)(tokenIdCounter s := user)\<rparr>) s2"
    let ?c = "tokenIdCounter s"
    from h have le: "?c + 1 \<le> tokenIdCounter s2"
      and st: "\<And>i. i < ?c + 1 \<Longrightarrow> at_revoked (authTokens s i) \<or> TokenRevoked i \<in> set evc
                 \<Longrightarrow> at_revoked (authTokens s2 i)" by (simp_all add: \<Phi>_def)
    have lt: "?c \<le> tokenIdCounter s2" using le c by (simp add: word_succ_le)
    have "\<And>i. i < ?c \<Longrightarrow> at_revoked (authTokens s i) \<or> TokenRevoked i \<in> set evc
                 \<Longrightarrow> at_revoked (authTokens s2 i) \<and> i \<noteq> ?c"
      using st c by (auto simp: word_less_succ)
    then show "\<Phi> (Transfer 0 user (tokenIdCounter s) # evc @
             [MetadataUpdate (tokenIdCounter s), TokenMinted (tokenIdCounter s) user clientId scope])
          s
          (s2\<lparr>erc_tokenURIs := (erc_tokenURIs s2)(tokenIdCounter s := uri),
             authTokens := (authTokens s2)(tokenIdCounter s :=
               \<lparr>at_user = user, at_clientId = clientId, at_scope = scope,
                at_expiresAt = expiresAt, at_revoked = False\<rparr>),
             userTokens := (userTokens s2)(user := userTokens s2 user @ [tokenIdCounter s])\<rparr>)"
      unfolding \<Phi>_def using lt by auto
  qed
  have "\<forall>ev s'. transact m c s = Inr (ev, s') \<longrightarrow> \<Phi> ev s s'"
    by (rule ledger_rule(4)[where \<Phi> = \<Phi>, OF none seq other mint])
  then show "transact m c s = Inr (ev, s') \<Longrightarrow> i < tokenIdCounter s \<Longrightarrow>
     at_revoked (authTokens s i) \<or> TokenRevoked i \<in> set ev \<Longrightarrow>
     at_revoked (authTokens s' i)"
    unfolding \<Phi>_def by blast
qed

lemma exec_revoked_stays:
  assumes "tokenId < tokenIdCounter s" "at_revoked (authTokens s tokenId)"
  shows "at_revoked (authTokens (exec tx s) tokenId)"
proof (cases "transact (fst tx) (snd tx) s")
  case (Inl r)
  then show ?thesis using assms by (simp add: exec_def)
next
  case (Inr b)
  obtain ev s' where b: "b = (ev, s')" by (cases b) auto
  from revoked_stays[OF Inr[unfolded b] assms(1)] assms(2) show ?thesis
    using Inr b by (simp add: exec_def)
qed

lemma run_revoked_stays:
  "tokenId < tokenIdCounter s \<Longrightarrow> at_revoked (authTokens s tokenId) \<Longrightarrow>
   at_revoked (authTokens (run txs s) tokenId)"
  unfolding run_def
proof (induction txs arbitrary: s)
  case Nil
  then show ?case by simp
next
  case (Cons tx txs)
  have "tokenId < tokenIdCounter (exec tx s)"
    using Cons.prems(1) exec_counter_mono[of s tx] by simp
  moreover have "at_revoked (authTokens (exec tx s) tokenId)"
    using Cons.prems by (rule exec_revoked_stays)
  ultimately show ?case using Cons.IH by simp
qed

lemma revoke_again:
  assumes "at_revoked (authTokens l tokenId)"
    and "ownerOf' l tokenId = msg_sender m \<or> ownable_owner l = msg_sender m"
  shows "revokeToken m l tokenId = Inr ([TokenRevoked tokenId], l)"
proof -
  have "(authTokens l tokenId)\<lparr>at_revoked := True\<rparr> = authTokens l tokenId"
    using assms(1) by simp
  then have "l\<lparr>authTokens := (authTokens l)(tokenId := (authTokens l tokenId)\<lparr>at_revoked := True\<rparr>)\<rparr> = l"
    by simp
  then show ?thesis using assms(2) by (auto simp: revokeToken_def)
qed

section \<open>Facts about the server\<close>

lemma truthy_Some: "truthy x = Some y \<longleftrightarrow> x = Some y \<and> y \<noteq> []"
  by (cases x) auto

lemma token_handler_codes:
  "authorizationCodes (snd (token_handler e k s req)) = authorizationCodes s \<or>
   (\<exists>code. truthy (tr_code req) = Some code \<and>
      authorizationCodes (snd (token_handler e k s req)) = (authorizationCodes s)(code := None))"
  by (auto simp: token_handler_def Let_def split: option.splits prod.splits)

lemma token_handler_absent:
  assumes "authorizationCodes s code = None" and "tr_code req = Some code"
  shows "snd (token_handler e k s req) = s"
    and "\<not> is_TokenResponse (fst (token_handler e k s req))"
    and "truthy (tr_code req) \<noteq> None \<Longrightarrow> truthy (tr_clientId req) \<noteq> None \<Longrightarrow>
         truthy (tr_redirectUri req) \<noteq> None \<Longrightarrow>
         fst (token_handler e k s req) = Error 400 ''Invalid authorization code''"
  using assms
  by (auto simp: token_handler_def Let_def truthy_Some split: option.splits prod.splits)

lemma token_handler_success:
  assumes "tr_code req = Some code" and "is_TokenResponse (fst (token_handler e k s req))"
  shows "authorizationCodes (snd (token_handler e k s req)) code = None"
  using assms
  by (auto simp: token_handler_def Let_def truthy_Some split: option.splits prod.splits if_splits)

lemma step_keeps_absent:
  assumes "\<not> issues code r" and "authorizationCodes s code = None"
  shows "authorizationCodes (step e r s) code = None"
proof (cases r)
  case (Authorize code' body)
  then show ?thesis using assms
    by (auto simp: authorize_handler_def split: option.splits prod.splits)
next
  case (Token k req)
  then show ?thesis using assms(2) token_handler_codes[of e k s req] by auto
next
  case (Verify k t)
  then show ?thesis using assms by simp
next
  case (Revoke k t)
  then show ?thesis using assms
    by (auto simp: revoke_handler_def split: option.splits sum.splits prod.splits)
next
  case (Timeout c)
  then show ?thesis using assms by (simp add: timeout_code_def)
next
  case (Chain m c)
  then show ?thesis using assms by simp
qed

lemma fold_keeps_absent:
  "\<forall>r\<in>set rs. \<not> issues code r \<Longrightarrow> authorizationCodes s code = None \<Longrightarrow>
   authorizationCodes (fold (step e) rs s) code = None"
  by (induction rs arbitrary: s) (simp_all add: step_keeps_absent)

lemma exchanges_present: "exchanges e code r s \<Longrightarrow> authorizationCodes s code \<noteq> None"
proof (cases r)
  case (Token k req)
  assume "exchanges e code r s"
  then show ?thesis using Token token_handler_absent(2)[of s code req e k] by auto
qed simp_all

lemma exchanges_consumes:
  "exchanges e code r s \<Longrightarrow> authorizationCodes (step e r s) code = None"
  by (cases r) (auto simp: token_handler_success)

lemma exchanged_absent:
  "\<forall>r\<in>set rs. \<not> issues code r \<Longrightarrow> authorizationCodes s code = None \<Longrightarrow>
   exchanged e code rs s = 0"
proof (induction rs arbitrary: s)
  case Nil
  show ?case by simp
next
  case (Cons r rs)
  have "\<not> exchanges e code r s" using Cons.prems(2) exchanges_present by blast
  moreover have "authorizationCodes (step e r s) code = None"
    using Cons.prems by (simp add: step_keeps_absent)
  ultimately show ?case using Cons by simp
qed

lemma exchanged_le_1:
  "\<forall>r\<in>set rs. \<not> issues code r \<Longrightarrow> exchanged e code rs s \<le> 1"
proof (induction rs arbitrary: s)
  case Nil
  show ?case by simp
next
  case (Cons r rs)
  show ?case
  proof (cases "exchanges e code r s")
    case True
    then have "authorizationCodes (step e r s) code = None" by (rule exchanges_consumes)
    then have "exchanged e code rs (step e r s) = 0"
      using Cons.prems by (simp add: exchanged_absent)
    then show ?thesis using True by simp
  next
    case False
    then show ?thesis using Cons by simp
  qed
qed


section \<open>The concrete deployment, evaluated\<close>

lemma operator_nonzero: "operator \<noteq> 0"
  by (simp add: operator_def)

lemma alice_nonzero: "alice \<noteq> 0"
  by (simp add: alice_def)

lemma alice_not_operator: "alice \<noteq> operator"
  by (simp add: alice_def operator_def)

lemma register_at_deploy:
  "registerClient at_deploy (constructor operator) ''client_001'' operator =
     Inr ([ClientRegistered ''client_001'' operator],
          (constructor operator)
            \<lparr>clientRegistry := (clientRegistry (constructor operator))(''client_001'' := operator)\<rparr>)"
  by (simp add: at_deploy_def registerClient_def constructor_def)

lemma deployment_eq:
  "deployment = (constructor operator)
     \<lparr>clientRegistry := (clientRegistry (constructor operator))(''client_001'' := operator)\<rparr>"
  by (simp add: deployment_def exec_def register_at_deploy)

lemma deployment_simps:
  "clientRegistry deployment ''client_001'' = operator"
  "clientRegistry deployment ''unknown'' = 0"
  "tokenIdCounter deployment = 0"
  "erc_owners deployment i = 0"
  "ownable_owner deployment = operator"
  "authTokens deployment i = zeroAuthToken"
  "userTokens deployment a = []"
  by (simp_all add: deployment_eq constructor_def)

lemma reachable_deployment: "reachable deployment"
  unfolding deployment_def by (rule reachable.mined) (rule reachable.deployed)

lemma mint_at_deployment:
  "mintAuthToken by_operator deployment alice ''client_001'' ''read write'' 1700003700 uri (Some []) =
   Inr (0, [Transfer 0 alice 0, MetadataUpdate 0, TokenMinted 0 alice ''client_001'' ''read write''],
        deployment\<lparr>tokenIdCounter := 1,
          erc_owners := (erc_owners deployment)(0 := alice),
          erc_tokenURIs := (erc_tokenURIs deployment)(0 := uri),
          authTokens := (authTokens deployment)(0 := first_record),
          userTokens := (userTokens deployment)(alice := [0])\<rparr>)"
  by (simp add: mintAuthToken.simps safeMint'.simps mint'_def by_operator_def deployment_simps
      operator_nonzero alice_nonzero setTokenURI'_def Let_def first_record_def)

lemma first_mint_eq:
  "first_mint = deployment\<lparr>tokenIdCounter := 1,
          erc_owners := (erc_owners deployment)(0 := alice),
          erc_tokenURIs := (erc_tokenURIs deployment)(0 := tokenURI_of ''client_001'' ''read write''),
          authTokens := (authTokens deployment)(0 := first_record),
          userTokens := (userTokens deployment)(alice := [0])\<rparr>"
proof -
  have "first_mint = exec (by_operator, example_mint) deployment"
    by (simp add: first_mint_def run_def example_txs_def deployment_def)
  then show ?thesis by (simp add: exec_def example_mint_def mint_at_deployment)
qed

lemma transact_example_mint:
  "transact by_operator example_mint deployment =
     Inr ([Transfer 0 alice 0, MetadataUpdate 0, TokenMinted 0 alice ''client_001'' ''read write''],
          first_mint)"
  by (simp add: example_mint_def mint_at_deployment first_mint_eq)

lemma first_mint_simps:
  "clientRegistry first_mint ''client_001'' = operator"
  "tokenIdCounter first_mint = 1"
  "erc_owners first_mint 0 = alice"
  "erc_owners first_mint 1 = 0"
  "ownable_owner first_mint = operator"
  "authTokens first_mint 0 = first_record"
  "userTokens first_mint alice = [0]"
  by (simp_all add: first_mint_eq deployment_simps)

lemma reachable_first_mint: "reachable first_mint"
  unfolding first_mint_def by (rule reachable_run) (rule reachable.deployed)

lemma minted_example: "minted example_txs (constructor operator) = [0]"
  by (simp add: example_txs_def register_at_deploy transact_example_mint exec_def
      deployment_eq[symmetric])

lemma issued_eq:
  "issued = \<lparr>authorizationCodes = [example_code \<mapsto> example_request], ledger = deployment\<rparr>"
  by (simp add: issued_def authorize_handler_def example_body_def example_request_def
      alice_string_def)

lemma mismatch_reply:
  "token_handler example_env example_clock issued mismatching =
     (Error 400 ''Client mismatch'', issued)"
  by (simp add: token_handler_def issued_eq mismatching_def example_code_def example_request_def)

lemma example_token_eq:
  "example_token =
     Compact example_payload (hmac example_env (JWT_SECRET example_env) example_payload)"
  by (simp add: example_token_def jwt_sign_def example_payload_def Let_def)

lemma matching_exchange:
  "token_handler example_env example_clock issued matching =
     (TokenResponse example_token ''Bearer'' 3600 ''0'' ''read write'', exchanged_state)"
  by (simp add: token_handler_def issued_eq matching_def example_code_def example_request_def
      mint_call_def example_env_def example_clock_def no_code_def
      mint_at_deployment[unfolded by_operator_def]
      first_mint_eq exchanged_state_def example_token_def example_claims_def alice_string_def
      decimal.simps)

lemma first_revoked_eq:
  "revokeToken by_operator first_mint 0 = Inr ([TokenRevoked 0], first_revoked)"
  by (simp add: revokeToken_def by_operator_def first_mint_simps first_revoked_def)

lemma mint_to_nobody:
  "mintAuthToken by_operator deployment 0 ''client_001'' ''read write'' 1700003700 uri (Some []) =
   Inl ERC721InvalidReceiver"
  by (simp add: mintAuthToken.simps safeMint'.simps mint'_def by_operator_def deployment_simps
      operator_nonzero Let_def)

lemma second_mint:
  "\<exists>logs s2. mintAuthToken by_operator first_mint alice ''client_001'' ''read'' 1700003700 []
       (Some []) = Inr (1, logs, s2)"
  by (simp add: mintAuthToken.simps safeMint'.simps mint'_def by_operator_def first_mint_simps
      operator_nonzero alice_nonzero setTokenURI'_def Let_def)

text \<open>
  The token that a receiver revokes from the callback of its own mint comes out of the
  mint not revoked: line 67 ran before lines 51 to 57 wrote the record. The state is the
  one that the same mint to an account without code leaves.
\<close>

lemma revoke_inside_own_mint:
  "transact by_operator inside_mint deployment =
     Inr ([Transfer 0 alice 0, TokenRevoked 0, MetadataUpdate 0,
           TokenMinted 0 alice ''client_001'' ''read write''], first_mint)"
  by (simp add: inside_mint_def mintAuthToken.simps safeMint'.simps mint'_def by_operator_def
      deployment_simps operator_nonzero alice_nonzero setTokenURI'_def Let_def first_record_def
      revokeToken_def ownerOf'_def first_mint_eq)

text \<open>A receiver that revokes an earlier token from the callback of a later mint.\<close>

lemma revoke_inside_later_mint:
  "transact by_operator later_mint first_mint =
     Inr ([Transfer 0 alice 1, TokenRevoked 0, MetadataUpdate 1,
           TokenMinted 1 alice ''client_001'' ''read''], later_state)"
  by (simp add: later_mint_def mintAuthToken.simps safeMint'.simps mint'_def by_operator_def
      first_mint_simps operator_nonzero alice_nonzero setTokenURI'_def Let_def
      revokeToken_def ownerOf'_def later_state_def first_revoked_def)

section \<open>The claims\<close>

text \<open>
  C1, as amended. The claim says that an exchange whose \<open>clientId\<close> or \<open>redirectUri\<close>
  differs from the stored request fails with the grant error \<open>400 Client mismatch\<close>
  and consumes the code all the same. The handler compares (line 89) before it deletes
  (line 93): the failure is as claimed, but the store and the ledger stay as they were,
  so that every request after it is answered as if the failed one had not been made.
\<close>

theorem mismatch_keeps_code:
  assumes "truthy (tr_code req) = Some code"
    and "truthy (tr_clientId req) = Some clientId"
    and "truthy (tr_redirectUri req) = Some redirectUri"
    and "authorizationCodes s code = Some authRequest"
    and "ar_clientId authRequest \<noteq> clientId \<or> ar_redirectUri authRequest \<noteq> redirectUri"
  shows "token_handler e k s req = (Error 400 ''Client mismatch'', s)
       \<and> GrantError (fst (token_handler e k s req))
       \<and> token_handler e k' (snd (token_handler e k s req)) req' = token_handler e k' s req'"
  using assms by (auto simp: token_handler_def GrantError_def)

theorem mismatch_keeps_code_witness:
  "truthy (tr_code mismatching) = Some example_code
   \<and> truthy (tr_clientId mismatching) = Some ''client_001''
   \<and> truthy (tr_redirectUri mismatching) = Some ''http://evil''
   \<and> authorizationCodes issued example_code = Some example_request
   \<and> ar_redirectUri example_request \<noteq> ''http://evil''
   \<and> token_handler example_env example_clock issued mismatching =
       (Error 400 ''Client mismatch'', issued)
   \<and> token_handler example_env late_clock
        (snd (token_handler example_env example_clock issued mismatching)) matching
       = token_handler example_env late_clock issued matching"
  using mismatch_keeps_code[where req = mismatching and code = example_code
      and clientId = "''client_001''" and redirectUri = "''http://evil''" and s = issued
      and authRequest = example_request and e = example_env and k = example_clock
      and k' = late_clock and req' = matching]
  by (simp add: mismatching_def example_code_def issued_eq example_request_def)

text \<open>
  C1 as it was stated does not hold: after the exchange with the wrong \<open>redirectUri\<close>
  has failed, the exchange of the same code with the right one succeeds.
\<close>

theorem mismatch_consumes_counterexample:
  "fst (token_handler example_env example_clock issued mismatching) = Error 400 ''Client mismatch''
   \<and> is_TokenResponse
       (fst (token_handler example_env example_clock
               (snd (token_handler example_env example_clock issued mismatching)) matching))
   \<and> \<not> GrantError
       (fst (token_handler example_env example_clock
               (snd (token_handler example_env example_clock issued mismatching)) matching))"
  by (simp add: mismatch_reply matching_exchange GrantError_def)

text \<open>
  C2. While a code is not issued again, at most one exchange of it succeeds, whatever
  else is requested in between. A successful exchange removes the code, and it stays
  removed in every later state. An exchange of a code that is not in the store (never
  issued, already exchanged, or timed out) fails, and leaves the whole state of the server
  as it was, ledger included: nothing was minted. When the request has its three required
  fields the failure is the grant error \<open>400 Invalid authorization code\<close>.
\<close>

theorem exchange_at_most_once:
  "((\<forall>r\<in>set rs. \<not> issues code r) \<longrightarrow> exchanged e code rs s \<le> 1) \<and>
   (exchanges e code r s \<and> (\<forall>r\<in>set rs. \<not> issues code r) \<longrightarrow>
      authorizationCodes (fold (step e) rs (step e r s)) code = None) \<and>
   (authorizationCodes s' code = None \<and> tr_code req = Some code \<longrightarrow>
      snd (token_handler e k s' req) = s' \<and>
      \<not> is_TokenResponse (fst (token_handler e k s' req)) \<and>
      (truthy (tr_code req) \<noteq> None \<and> truthy (tr_clientId req) \<noteq> None \<and>
       truthy (tr_redirectUri req) \<noteq> None \<longrightarrow>
         fst (token_handler e k s' req) = Error 400 ''Invalid authorization code'' \<and>
         GrantError (fst (token_handler e k s' req))))"
proof (intro conjI impI)
  assume "\<forall>r\<in>set rs. \<not> issues code r"
  then show "exchanged e code rs s \<le> 1" by (rule exchanged_le_1)
next
  assume "exchanges e code r s \<and> (\<forall>r\<in>set rs. \<not> issues code r)"
  then show "authorizationCodes (fold (step e) rs (step e r s)) code = None"
    by (simp add: fold_keeps_absent exchanges_consumes)
next
  assume a: "authorizationCodes s' code = None \<and> tr_code req = Some code"
  show "snd (token_handler e k s' req) = s'"
    using a token_handler_absent(1)[of s' code req e k] by simp
  show "\<not> is_TokenResponse (fst (token_handler e k s' req))"
    using a token_handler_absent(2)[of s' code req e k] by simp
  assume b: "truthy (tr_code req) \<noteq> None \<and> truthy (tr_clientId req) \<noteq> None \<and>
       truthy (tr_redirectUri req) \<noteq> None"
  show r: "fst (token_handler e k s' req) = Error 400 ''Invalid authorization code''"
    using a b token_handler_absent(3)[of s' code req e k] by simp
  show "GrantError (fst (token_handler e k s' req))" unfolding r GrantError_def by simp
qed

theorem exchange_at_most_once_witness:
  "\<not> issues example_code (Token example_clock matching)
   \<and> \<not> issues example_code (Timeout example_code)
   \<and> \<not> issues example_code (Token late_clock matching)
   \<and> exchanges example_env example_code (Token example_clock matching) issued
   \<and> exchanged example_env example_code
       [Token example_clock matching, Timeout example_code, Token late_clock matching] issued \<le> 1
   \<and> authorizationCodes exchanged_state example_code = None
   \<and> tr_code matching = Some example_code
   \<and> snd (token_handler example_env late_clock exchanged_state matching) = exchanged_state
   \<and> fst (token_handler example_env late_clock exchanged_state matching)
       = Error 400 ''Invalid authorization code''"
proof -
  let ?rs = "[Token example_clock matching, Timeout example_code, Token late_clock matching]"
  have h1: "\<forall>r\<in>set ?rs. \<not> issues example_code r" by simp
  have h2: "exchanges example_env example_code (Token example_clock matching) issued"
    by (simp add: matching_exchange) (simp add: matching_def)
  have h3: "authorizationCodes exchanged_state example_code = None"
    by (simp add: exchanged_state_def)
  have h4: "tr_code matching = Some example_code" by (simp add: matching_def)
  have h5: "truthy (tr_code matching) \<noteq> None \<and> truthy (tr_clientId matching) \<noteq> None \<and>
       truthy (tr_redirectUri matching) \<noteq> None"
    by (simp add: matching_def example_code_def)
  note t = exchange_at_most_once[where rs = ?rs and code = example_code and e = example_env
      and s = issued and r = "Token example_clock matching" and s' = exchanged_state
      and req = matching and k = late_clock]
  from t h1 have c1: "exchanged example_env example_code ?rs issued \<le> 1" by blast
  from t h3 h4 have c2: "snd (token_handler example_env late_clock exchanged_state matching)
      = exchanged_state" by blast
  from t h3 h4 h5 have c3: "fst (token_handler example_env late_clock exchanged_state matching)
       = Error 400 ''Invalid authorization code''" by blast
  show ?thesis using h2 h3 h4 c1 c2 c3 by simp
qed



text \<open>
  C4. In every state that transactions reach from the constructor, \<open>isTokenValid\<close>
  returns and does not revert; its value is false for an id that no mint has returned,
  and for a minted id it is \<open>!revoked && expiresAt > block.timestamp\<close> of the stored
  record.
\<close>

theorem isTokenValid_spec:
  "isTokenValid m (run txs (constructor deployer)) tokenId =
     Inr (tokenId \<in> set (minted txs (constructor deployer)) \<and>
          \<not> at_revoked (authTokens (run txs (constructor deployer)) tokenId) \<and>
          at_expiresAt (authTokens (run txs (constructor deployer)) tokenId)
            > block_timestamp m)"
proof -
  have "reachable (run txs (constructor deployer))"
    by (rule reachable_run) (rule reachable.deployed)
  from reachable_exists[OF this, of tokenId] show ?thesis
    by (simp add: isTokenValid_def minted_constructor Let_def)
qed

theorem isTokenValid_spec_witness:
  "minted example_txs (constructor operator) = [0]
   \<and> isTokenValid by_alice (run example_txs (constructor operator)) 0 = Inr True
   \<and> isTokenValid by_alice (run example_txs (constructor operator)) 1 = Inr False"
  using isTokenValid_spec[of by_alice example_txs operator 0]
    isTokenValid_spec[of by_alice example_txs operator 1]
  by (simp add: minted_example first_mint_def[symmetric] first_mint_simps first_record_def
      by_alice_def)

text \<open>
  C5. Let a token have been minted, that is, let a mint committed by the transactions so
  far have returned its id, and let a call then be committed in which the token is
  revoked: a \<open>revokeToken\<close> of a transaction, or one that the receiver of a mint makes
  from its callback; its event \<open>TokenRevoked\<close> is in the logs of the call. Then in every
  state that later transactions reach, the calls of receivers included, the record is
  flagged as revoked and \<open>isTokenValid\<close> is false, at every block time; and a further
  revoke of the token by anyone who is authorised in that state succeeds and changes
  nothing. (The token that a receiver revokes inside the very mint that creates it is not
  yet minted: see \<open>revoke_inside_own_mint\<close>.)
\<close>

theorem revoke_permanent:
  assumes "tokenId \<in> set (minted txs0 (constructor deployer))"
    and "transact m c (run txs0 (constructor deployer)) = Inr (logs, s')"
    and "TokenRevoked tokenId \<in> set logs"
  shows "at_revoked (authTokens (run txs s') tokenId)
       \<and> isTokenValid m' (run txs s') tokenId = Inr False
       \<and> (ownerOf' (run txs s') tokenId = msg_sender m2 \<or>
           ownable_owner (run txs s') = msg_sender m2 \<longrightarrow>
          revokeToken m2 (run txs s') tokenId
            = Inr ([TokenRevoked tokenId], run txs s'))"
proof -
  let ?s = "run txs0 (constructor deployer)"
  have lt: "tokenId < tokenIdCounter ?s" using assms(1) by (simp add: minted_constructor)
  have "at_revoked (authTokens s' tokenId)"
    using revoked_stays[OF assms(2) lt] assms(3) by blast
  moreover have "tokenId < tokenIdCounter s'"
    using lt counter_mono(1)[OF assms(2)] by simp
  ultimately have flag: "at_revoked (authTokens (run txs s') tokenId)"
    by (rule run_revoked_stays[rotated])
  then have "isTokenValid m' (run txs s') tokenId = Inr False"
    by (simp add: isTokenValid_def Let_def)
  then show ?thesis using flag revoke_again[OF flag, of m2] by blast
qed

theorem revoke_permanent_witness:
  "0 \<in> set (minted example_txs (constructor operator))
   \<and> transact by_operator (RevokeToken 0) (run example_txs (constructor operator))
       = Inr ([TokenRevoked 0], first_revoked)
   \<and> TokenRevoked 0 \<in> set [TokenRevoked 0]
   \<and> at_revoked (authTokens (run [(by_operator, later_mint)] first_revoked) 0)
   \<and> isTokenValid by_alice (run [(by_operator, later_mint)] first_revoked) 0 = Inr False
   \<and> revokeToken by_operator first_revoked 0 = Inr ([TokenRevoked 0], first_revoked)
   \<and> transact by_operator later_mint (run example_txs (constructor operator))
       = Inr ([Transfer 0 alice 1, TokenRevoked 0, MetadataUpdate 1,
               TokenMinted 1 alice ''client_001'' ''read''], later_state)
   \<and> isTokenValid by_alice (run [(by_alice, TransferFrom operator 0)] later_state) 0
       = Inr False"
proof -
  have mi: "0 \<in> set (minted example_txs (constructor operator))"
    by (simp add: minted_example)
  have t1: "transact by_operator (RevokeToken 0) (run example_txs (constructor operator))
       = Inr ([TokenRevoked 0], first_revoked)"
    using first_revoked_eq by (simp add: first_mint_def)
  have t2: "transact by_operator later_mint (run example_txs (constructor operator))
       = Inr ([Transfer 0 alice 1, TokenRevoked 0, MetadataUpdate 1,
               TokenMinted 1 alice ''client_001'' ''read''], later_state)"
    using revoke_inside_later_mint by (simp add: first_mint_def)
  have e1: "TokenRevoked 0 \<in> set [TokenRevoked 0]" by simp
  have e2: "TokenRevoked 0 \<in> set [Transfer 0 alice 1, TokenRevoked 0, MetadataUpdate 1,
               TokenMinted 1 alice ''client_001'' ''read'']" by simp
  have o: "ownable_owner (run [] first_revoked) = msg_sender by_operator"
    by (simp add: run_def first_revoked_def first_mint_simps by_operator_def)
  have r: "run [] first_revoked = first_revoked" by (simp add: run_def)
  note a = revoke_permanent[OF mi t1 e1, where txs = "[(by_operator, later_mint)]"
      and m' = by_alice]
  note b = revoke_permanent[OF mi t1 e1, where txs = "[]" and ?m2.0 = by_operator]
  note c = revoke_permanent[OF mi t2 e2, where txs = "[(by_alice, TransferFrom operator 0)]"
      and m' = by_alice]
  from b o have "revokeToken by_operator first_revoked 0 = Inr ([TokenRevoked 0], first_revoked)"
    unfolding r by blast
  then show ?thesis using mi t1 e1 t2 a c by blast
qed

text \<open>
  C6, as amended. A mint fails with \<open>Client not registered\<close> when the client id has no
  registered address; otherwise it fails with \<open>Invalid expiration time\<close> when
  \<open>expiresAt\<close> is not strictly after the block time. Otherwise, with the counter below
  \<open>2^256 - 1\<close>: a mint to the zero address reverts with \<open>ERC721InvalidReceiver\<close> and
  commits nothing, and so does, in a reachable state, a mint to a receiver that does not
  accept the token; in a reachable state a mint to a receiver that is not the zero address
  and accepts the token, whatever calls the receiver makes from its callback, commits a
  new record of a token that did not exist and returns the id it assigned, the value of
  the counter. The ids of two successful mints, with any transactions between them,
  increase strictly, and no history returns an id twice, the mints that receivers make
  from callbacks included.
\<close>

theorem mint_spec:
  "(clientRegistry s clientId = 0 \<longrightarrow>
      mintAuthToken m s user clientId scope expiresAt uri receiver = Inl ClientNotRegistered) \<and>
   (clientRegistry s clientId \<noteq> 0 \<and> expiresAt \<le> block_timestamp m \<longrightarrow>
      mintAuthToken m s user clientId scope expiresAt uri receiver = Inl InvalidExpirationTime) \<and>
   (clientRegistry s clientId \<noteq> 0 \<and> block_timestamp m < expiresAt \<and> tokenIdCounter s \<noteq> - 1 \<and>
    user = 0 \<longrightarrow>
      mintAuthToken m s user clientId scope expiresAt uri receiver = Inl ERC721InvalidReceiver \<and>
      exec (m, MintAuthToken user clientId scope expiresAt uri receiver) s = s) \<and>
   (clientRegistry s clientId \<noteq> 0 \<and> block_timestamp m < expiresAt \<and> tokenIdCounter s \<noteq> - 1 \<and>
    reachable s \<and> receiver = None \<longrightarrow>
      mintAuthToken m s user clientId scope expiresAt uri receiver = Inl ERC721InvalidReceiver \<and>
      exec (m, MintAuthToken user clientId scope expiresAt uri receiver) s = s) \<and>
   (clientRegistry s clientId \<noteq> 0 \<and> block_timestamp m < expiresAt \<and> tokenIdCounter s \<noteq> - 1 \<and>
    reachable s \<and> user \<noteq> 0 \<and> receiver = Some calls \<longrightarrow>
      (\<exists>logs s'. mintAuthToken m s user clientId scope expiresAt uri receiver
                   = Inr (tokenIdCounter s, logs, s') \<and>
         \<not> exists' s (tokenIdCounter s) \<and> exists' s' (tokenIdCounter s) \<and>
         authTokens s' (tokenIdCounter s) =
           \<lparr>at_user = user, at_clientId = clientId, at_scope = scope,
            at_expiresAt = expiresAt, at_revoked = False\<rparr>)) \<and>
   (mintAuthToken m s user clientId scope expiresAt uri receiver = Inr (tokenId, logs1, s1) \<and>
    mintAuthToken m2 (run txs s1) user2 clientId2 scope2 expiresAt2 uri2 receiver2
      = Inr (tokenId2, logs2, s2) \<longrightarrow> tokenId < tokenId2) \<and>
   distinct (minted txs0 (constructor deployer))"
proof (intro conjI impI)
  assume "clientRegistry s clientId = 0"
  then show "mintAuthToken m s user clientId scope expiresAt uri receiver = Inl ClientNotRegistered"
    by (simp add: mintAuthToken.simps)
next
  assume "clientRegistry s clientId \<noteq> 0 \<and> expiresAt \<le> block_timestamp m"
  then show "mintAuthToken m s user clientId scope expiresAt uri receiver
      = Inl InvalidExpirationTime"
    by (simp add: mintAuthToken.simps not_less)
next
  assume a: "clientRegistry s clientId \<noteq> 0 \<and> block_timestamp m < expiresAt \<and>
    tokenIdCounter s \<noteq> - 1 \<and> user = 0"
  then show z: "mintAuthToken m s user clientId scope expiresAt uri receiver
      = Inl ERC721InvalidReceiver"
    by (simp add: mintAuthToken.simps safeMint'.simps mint'_def Let_def)
  show "exec (m, MintAuthToken user clientId scope expiresAt uri receiver) s = s"
    by (simp add: exec_def z)
next
  assume a: "clientRegistry s clientId \<noteq> 0 \<and> block_timestamp m < expiresAt \<and>
    tokenIdCounter s \<noteq> - 1 \<and> reachable s \<and> receiver = None"
  then have "erc_owners s (tokenIdCounter s) = 0"
    using reachable_owned_below[of s] by auto
  then show z: "mintAuthToken m s user clientId scope expiresAt uri receiver
      = Inl ERC721InvalidReceiver"
    using a by (simp add: mintAuthToken.simps safeMint'.simps mint'_def Let_def)
  show "exec (m, MintAuthToken user clientId scope expiresAt uri receiver) s = s"
    by (simp add: exec_def z)
next
  assume a: "clientRegistry s clientId \<noteq> 0 \<and> block_timestamp m < expiresAt \<and>
    tokenIdCounter s \<noteq> - 1 \<and> reachable s \<and> user \<noteq> 0 \<and> receiver = Some calls"
  let ?c = "tokenIdCounter s"
  let ?sm = "s\<lparr>tokenIdCounter := ?c + 1, erc_owners := (erc_owners s)(?c := user)\<rparr>"
  have inv: "\<forall>i. erc_owners s i \<noteq> 0 \<longleftrightarrow> i < tokenIdCounter s"
    using a reachable_owned_below by blast
  then have free: "erc_owners s ?c = 0" by auto
  obtain evc s2 where cb: "onERC721Received m calls ?sm = (evc, s2)"
    by (cases "onERC721Received m calls ?sm") auto
  have invm: "\<forall>i. erc_owners ?sm i \<noteq> 0 \<longleftrightarrow> i < tokenIdCounter ?sm"
    using inv a by (auto simp: word_less_succ)
  have inv2: "\<forall>i. erc_owners s2 i \<noteq> 0 \<longleftrightarrow> i < tokenIdCounter s2"
    using owned_below(2)[OF invm cb] .
  have "?c + 1 \<le> tokenIdCounter s2" using counter_mono(2)[OF cb] by simp
  then have "?c < tokenIdCounter s2" using a by (simp add: word_succ_le)
  then have owned: "erc_owners s2 ?c \<noteq> 0" using inv2 by blast
  have "mintAuthToken m s user clientId scope expiresAt uri (Some calls) =
     Inr (?c,
          Transfer 0 user ?c # evc @ [MetadataUpdate ?c, TokenMinted ?c user clientId scope],
          s2\<lparr>erc_tokenURIs := (erc_tokenURIs s2)(?c := uri),
             authTokens := (authTokens s2)(?c :=
               \<lparr>at_user = user, at_clientId = clientId, at_scope = scope,
                at_expiresAt = expiresAt, at_revoked = False\<rparr>),
             userTokens := (userTokens s2)(user := userTokens s2 user @ [?c])\<rparr>)"
    using a free cb by (intro mint_success) simp_all
  then show "\<exists>logs s'. mintAuthToken m s user clientId scope expiresAt uri receiver
                   = Inr (tokenIdCounter s, logs, s') \<and>
         \<not> exists' s (tokenIdCounter s) \<and> exists' s' (tokenIdCounter s) \<and>
         authTokens s' (tokenIdCounter s) =
           \<lparr>at_user = user, at_clientId = clientId, at_scope = scope,
            at_expiresAt = expiresAt, at_revoked = False\<rparr>"
    using a free owned by (simp add: exists'_def ownerOf'_def)
next
  assume a: "mintAuthToken m s user clientId scope expiresAt uri receiver
      = Inr (tokenId, logs1, s1) \<and>
    mintAuthToken m2 (run txs s1) user2 clientId2 scope2 expiresAt2 uri2 receiver2
      = Inr (tokenId2, logs2, s2)"
  note r1 = mint_counter[OF a[THEN conjunct1]] and r2 = mint_counter[OF a[THEN conjunct2]]
  have "tokenId < tokenIdCounter s1" using r1 by simp
  also have "\<dots> \<le> tokenIdCounter (run txs s1)" by (rule run_counter_mono)
  finally show "tokenId < tokenId2" using r2 by simp
next
  show "distinct (minted txs0 (constructor deployer))"
    using minted_interval[of txs0 "constructor deployer"] by simp
qed

theorem mint_spec_witness:
  "clientRegistry deployment ''unknown'' = 0
   \<and> mintAuthToken by_operator deployment alice ''unknown'' ''read'' 1700003700 [] (Some [])
       = Inl ClientNotRegistered
   \<and> clientRegistry deployment ''client_001'' \<noteq> 0
   \<and> mintAuthToken by_operator deployment alice ''client_001'' ''read'' 1700000100 [] (Some [])
       = Inl InvalidExpirationTime
   \<and> tokenIdCounter deployment \<noteq> - 1
   \<and> mintAuthToken by_operator deployment 0 ''client_001'' ''read'' 1700003700 [] (Some [])
       = Inl ERC721InvalidReceiver
   \<and> reachable deployment
   \<and> mintAuthToken by_operator deployment alice ''client_001'' ''read'' 1700003700 [] None
       = Inl ERC721InvalidReceiver
   \<and> alice \<noteq> 0
   \<and> (\<exists>logs s'. mintAuthToken by_operator deployment alice ''client_001''
                   ''read write'' 1700003700 [] (Some [(alice, RevokeToken 0)])
                 = Inr (0, logs, s')
          \<and> exists' s' 0 \<and> authTokens s' 0 = first_record)
   \<and> (\<exists>logs s2. mintAuthToken by_operator first_mint alice ''client_001'' ''read''
                   1700003700 [] (Some []) = Inr (1, logs, s2))
   \<and> (0 :: uint256) < 1
   \<and> distinct (minted example_txs (constructor operator))"
proof -
  have h1: "clientRegistry deployment ''unknown'' = 0" by (simp add: deployment_simps)
  have h2: "clientRegistry deployment ''client_001'' \<noteq> 0"
    by (simp add: deployment_simps operator_nonzero)
  have h3: "(1700000100 :: uint256) \<le> block_timestamp by_operator"
    by (simp add: by_operator_def)
  have h4: "block_timestamp by_operator < (1700003700 :: uint256)"
    by (simp add: by_operator_def)
  have h5: "tokenIdCounter deployment \<noteq> - 1" by (simp add: deployment_simps)
  have c1: "mintAuthToken by_operator deployment alice ''unknown'' ''read'' 1700003700 [] (Some [])
       = Inl ClientNotRegistered"
    using h1 mint_spec[where s = deployment and clientId = "''unknown''"
        and m = by_operator and user = alice and scope = "''read''" and expiresAt = 1700003700
        and uri = "[]" and receiver = "Some []"] by blast
  have c2: "mintAuthToken by_operator deployment alice ''client_001'' ''read''
       1700000100 [] (Some []) = Inl InvalidExpirationTime"
    using h2 h3 mint_spec[where s = deployment and clientId = "''client_001''"
        and m = by_operator and user = alice and scope = "''read''"
        and expiresAt = 1700000100 and uri = "[]" and receiver = "Some []"] by blast
  have c3: "mintAuthToken by_operator deployment 0 ''client_001'' ''read'' 1700003700 [] (Some [])
       = Inl ERC721InvalidReceiver"
    using h2 h4 h5 mint_spec[where s = deployment and clientId = "''client_001''"
        and m = by_operator and user = 0 and scope = "''read''"
        and expiresAt = 1700003700 and uri = "[]" and receiver = "Some []"] by blast
  have c4: "mintAuthToken by_operator deployment alice ''client_001'' ''read'' 1700003700 [] None
       = Inl ERC721InvalidReceiver"
    using h2 h4 h5 reachable_deployment mint_spec[where s = deployment
        and clientId = "''client_001''" and m = by_operator and user = alice
        and scope = "''read''" and expiresAt = 1700003700 and uri = "[]" and receiver = None]
    by blast
  have c5: "\<exists>logs s'. mintAuthToken by_operator deployment alice ''client_001''
                   ''read write'' 1700003700 [] (Some [(alice, RevokeToken 0)])
                 = Inr (0, logs, s')
          \<and> exists' s' 0 \<and> authTokens s' 0 = first_record"
    using h2 h4 h5 reachable_deployment alice_nonzero
      mint_spec[where s = deployment and clientId = "''client_001''" and m = by_operator
        and user = alice and scope = "''read write''" and expiresAt = 1700003700
        and uri = "[]" and receiver = "Some [(alice, RevokeToken 0)]"
        and calls = "[(alice, RevokeToken 0)]"]
    unfolding deployment_simps(3) first_record_def by blast
  obtain logs2 s2 where m2: "mintAuthToken by_operator first_mint alice ''client_001''
      ''read'' 1700003700 [] (Some []) = Inr (1, logs2, s2)"
    using second_mint by blast
  have r: "run [] first_mint = first_mint" by (simp add: run_def)
  have m1: "mintAuthToken by_operator deployment alice ''client_001'' ''read write''
      1700003700 (tokenURI_of ''client_001'' ''read write'') (Some [])
      = Inr (0, [Transfer 0 alice 0, MetadataUpdate 0,
                 TokenMinted 0 alice ''client_001'' ''read write''], first_mint)"
    by (simp add: mint_at_deployment first_mint_eq)
  have c6: "(0 :: uint256) < 1"
    using m1 m2 mint_spec[where s = deployment and clientId = "''client_001''"
        and m = by_operator and user = alice and scope = "''read write''"
        and expiresAt = 1700003700 and uri = "tokenURI_of ''client_001'' ''read write''"
        and receiver = "Some []"
        and txs = "[]" and ?m2.0 = by_operator and ?user2.0 = alice
        and ?clientId2.0 = "''client_001''" and ?scope2.0 = "''read''"
        and ?expiresAt2.0 = 1700003700 and ?uri2.0 = "[]" and ?receiver2.0 = "Some []"
        and tokenId = 0 and ?tokenId2.0 = 1 and ?s1.0 = first_mint
        and ?logs1.0 = "[Transfer 0 alice 0, MetadataUpdate 0,
                 TokenMinted 0 alice ''client_001'' ''read write'']"
        and ?logs2.0 = logs2 and ?s2.0 = s2]
    unfolding r by blast
  have c7: "distinct (minted example_txs (constructor operator))"
    by (rule mint_spec[where ?txs0.0 = example_txs and deployer = operator,
          THEN conjunct2, THEN conjunct2, THEN conjunct2, THEN conjunct2, THEN conjunct2,
          THEN conjunct2])
  show ?thesis
    using h1 c1 h2 c2 h5 c3 reachable_deployment c4 alice_nonzero c5 m2 c6 c7 by blast
qed

text \<open>
  C6 as it was stated does not hold: with a registered client and an expiry in the
  future, a mint to the zero address reverts, with neither of the two errors, and commits
  nothing.
\<close>

theorem mint_otherwise_commits_counterexample:
  "clientRegistry deployment ''client_001'' \<noteq> 0
   \<and> block_timestamp by_operator < (1700003700 :: uint256)
   \<and> mintAuthToken by_operator deployment 0 ''client_001'' ''read write'' 1700003700
        (tokenURI_of ''client_001'' ''read write'') (Some []) = Inl ERC721InvalidReceiver"
proof (intro conjI)
  show "clientRegistry deployment ''client_001'' \<noteq> 0"
    by (simp add: deployment_simps operator_nonzero)
  show "block_timestamp by_operator < (1700003700 :: uint256)"
    by (simp add: by_operator_def)
  show "mintAuthToken by_operator deployment 0 ''client_001'' ''read write'' 1700003700
        (tokenURI_of ''client_001'' ''read write'') (Some []) = Inl ERC721InvalidReceiver"
    by (rule mint_to_nobody)
qed

text \<open>
  C7. When the token of a revoke request does not parse, or its signature is not the one
  of its payload under the server's secret, or its expiry has passed, the handler fails
  (status 500) and the state of the server, ledger included, is what it was: no call
  reached the contract.
\<close>

theorem revoke_decode_failure:
  assumes "given token = Some t"
    and "(\<exists>x. t = Unparseable x) \<or>
         (\<exists>p sig. t = Compact p sig \<and>
            (sig \<noteq> hmac e (JWT_SECRET e) p \<or> exp p < date_now k div 1000))"
  shows "revoke_handler e k s token = (Error 500 ''Revocation failed'', s)"
  using assms by (auto simp: revoke_handler_def jwt_verify_def)

theorem revoke_decode_failure_witness:
  "given (Some (Unparseable ''not.a.jwt'')) = Some (Unparseable ''not.a.jwt'')
   \<and> revoke_handler example_env example_clock exchanged_state (Some (Unparseable ''not.a.jwt''))
       = (Error 500 ''Revocation failed'', exchanged_state)
   \<and> given (Some (Compact example_payload ''forged'')) = Some (Compact example_payload ''forged'')
   \<and> ''forged'' \<noteq> hmac example_env (JWT_SECRET example_env) example_payload
   \<and> revoke_handler example_env example_clock exchanged_state
        (Some (Compact example_payload ''forged''))
       = (Error 500 ''Revocation failed'', exchanged_state)
   \<and> given (Some example_token) = Some example_token
   \<and> exp example_payload < date_now late_clock div 1000
   \<and> revoke_handler example_env late_clock exchanged_state (Some example_token)
       = (Error 500 ''Revocation failed'', exchanged_state)"
proof -
  have g1: "given (Some (Unparseable ''not.a.jwt'')) = Some (Unparseable ''not.a.jwt'')"
    by simp
  have g2: "given (Some (Compact example_payload ''forged''))
      = Some (Compact example_payload ''forged'')" by simp
  have g3: "given (Some example_token) = Some example_token" by (simp add: example_token_eq)
  have f: "''forged'' \<noteq> hmac example_env (JWT_SECRET example_env) example_payload"
    by (simp add: example_env_def)
  have x: "exp example_payload < date_now late_clock div 1000"
    by (simp add: example_payload_def late_clock_def claims.defs)
  have c1: "revoke_handler example_env example_clock exchanged_state
      (Some (Unparseable ''not.a.jwt'')) = (Error 500 ''Revocation failed'', exchanged_state)"
    using revoke_decode_failure[OF g1, of example_env example_clock exchanged_state] by blast
  have c2: "revoke_handler example_env example_clock exchanged_state
        (Some (Compact example_payload ''forged''))
       = (Error 500 ''Revocation failed'', exchanged_state)"
    using revoke_decode_failure[OF g2, of example_env example_clock exchanged_state] f by blast
  have c3: "revoke_handler example_env late_clock exchanged_state (Some example_token)
       = (Error 500 ''Revocation failed'', exchanged_state)"
    using revoke_decode_failure[OF g3, of example_env late_clock exchanged_state] x
    unfolding example_token_eq by blast
  show ?thesis using g1 g2 g3 f x c1 c2 c3 by blast
qed

text \<open>
  C8. For the codec as the specification describes it: a token issued for any claims
  with a time to live, and decoded with the same secret before the time to live has
  elapsed, decodes, and the claims of the decoded payload are the claims it was issued
  for.
\<close>

theorem jwt_roundtrip:
  "now' < now + expiresIn \<Longrightarrow>
   \<exists>p. jwt_verify mac (jwt_sign mac c secret expiresIn now) secret now' = Inr p \<and>
       claims.truncate p = c \<and> iat p = now \<and> exp p = now + expiresIn"
  by (cases c) (simp add: jwt_verify_def jwt_sign_def Let_def claims.defs)

theorem jwt_roundtrip_witness:
  "(1700003699 :: nat) < 1700000100 + 3600
   \<and> (\<exists>p. jwt_verify (hmac example_env)
             (jwt_sign (hmac example_env) example_claims ''your-secret-key'' 3600 1700000100)
             ''your-secret-key'' 1700003699 = Inr p
          \<and> claims.truncate p = example_claims)"
proof -
  have h: "(1700003699 :: nat) < 1700000100 + 3600" by simp
  from jwt_roundtrip[OF h, of "hmac example_env" example_claims "''your-secret-key''"]
  show ?thesis using h by blast
qed

text \<open>
  C9. The token handler does not read \<open>clientSecret\<close>: two requests that differ in
  nothing but that field, whether it is present or not, get the same reply and leave the
  same state.
\<close>

theorem clientSecret_unused:
  "token_handler e k s (req\<lparr>tr_clientSecret := x\<rparr>) =
   token_handler e k s (req\<lparr>tr_clientSecret := y\<rparr>)"
  by (simp add: token_handler_def)

theorem clientSecret_unused_witness:
  "token_handler example_env example_clock issued (matching\<lparr>tr_clientSecret := None\<rparr>)
     = (TokenResponse example_token ''Bearer'' 3600 ''0'' ''read write'', exchanged_state)"
proof -
  have "matching\<lparr>tr_clientSecret := Some ''s3cret''\<rparr> = matching" by (simp add: matching_def)
  then show ?thesis
    using clientSecret_unused[where e = example_env and k = example_clock and s = issued
        and req = matching and x = None and y = "Some ''s3cret''"]
    by (simp add: matching_exchange)
qed

text \<open>
  C10. \<open>revokeToken\<close> does not ask that the token exists. On an id that has no owner, a
  call by the owner of the contract succeeds and flags the (empty) record of that id as
  revoked, without making the token exist; a call by anyone else fails with
  \<open>Not authorized\<close>. The sender of a transaction is an account and so is not the zero
  address, which the contract reads as the owner of a token that does not exist.
\<close>

theorem revoke_unminted:
  "\<not> exists' s tokenId \<Longrightarrow>
   (ownable_owner s = msg_sender m \<longrightarrow>
      (\<exists>s'. revokeToken m s tokenId = Inr ([TokenRevoked tokenId], s') \<and>
            at_revoked (authTokens s' tokenId) \<and> \<not> exists' s' tokenId)) \<and>
   (ownable_owner s \<noteq> msg_sender m \<and> msg_sender m \<noteq> 0 \<longrightarrow>
      revokeToken m s tokenId = Inl NotAuthorized)"
  by (auto simp: revokeToken_def exists'_def ownerOf'_def)

theorem revoke_unminted_witness:
  "\<not> exists' deployment 7
   \<and> ownable_owner deployment = msg_sender by_operator
   \<and> (\<exists>s'. revokeToken by_operator deployment 7 = Inr ([TokenRevoked 7], s')
          \<and> at_revoked (authTokens s' 7))
   \<and> ownable_owner deployment \<noteq> msg_sender by_alice \<and> msg_sender by_alice \<noteq> 0
   \<and> revokeToken by_alice deployment 7 = Inl NotAuthorized"
proof -
  have h: "\<not> exists' deployment 7" by (simp add: exists'_def ownerOf'_def deployment_simps)
  have o: "ownable_owner deployment = msg_sender by_operator"
    by (simp add: deployment_simps by_operator_def)
  have a: "ownable_owner deployment \<noteq> msg_sender by_alice" "msg_sender by_alice \<noteq> 0"
    using alice_not_operator alice_nonzero by (simp_all add: deployment_simps by_alice_def)
  show ?thesis
    using h o a revoke_unminted[OF h, of by_operator] revoke_unminted[OF h, of by_alice]
    by blast
qed

end
